theory Spec2Isabelle
  imports Main
begin

section \<open>JavaScript values\<close>

text \<open>
  Request bodies, response payloads and the before/after snapshots of an audit entry are
  free-form JSON. Numbers are kept as integers (no NaN occurs in a JSON document); an
  object is its list of own properties, looked up by key. \<open>JFunction n\<close> is the
  built-in function named \<open>n\<close>: a lookup in an object literal finds the methods that
  every object inherits.
\<close>

datatype json =
    JUndefined
  | JNull
  | JBool bool
  | JNum int
  | JStr string
  | JArr "json list"
  | JObj "(string \<times> json) list"
  | JFunction string

text \<open>Thrown values: the error classes the modelled code can meet.\<close>

datatype exn =
    TypeError string
  | ValidationError string
  | CastError string
  | MongoError string
  | HttpError nat string
  | TokenExpiredError
  | NotBeforeError
  | JsonWebTokenError string
  | Error string

text \<open>JavaScript truthiness, as used by \<^verbatim>\<open>if (x)\<close>, \<^verbatim>\<open>!x\<close> and \<^verbatim>\<open>a || b\<close>.\<close>

fun truthy :: "json \<Rightarrow> bool" where
  "truthy JUndefined = False"
| "truthy JNull = False"
| "truthy (JBool b) = b"
| "truthy (JNum n) = (n \<noteq> 0)"
| "truthy (JStr s) = (s \<noteq> [])"
| "truthy (JArr xs) = True"
| "truthy (JObj kvs) = True"
| "truthy (JFunction n) = True"

text \<open>
  \<^verbatim>\<open>v.k\<close> for the keys the code reads off request and response data (data, id, _id,
  user, userId, the sensitive field names and the registered claims of a token): none
  of them is inherited, so only an object has such a property, and only as its own. The
  code guards every read by the truthiness of the value read from, so null and
  undefined are never dereferenced.
\<close>

fun getProp :: "json \<Rightarrow> string \<Rightarrow> json" where
  "getProp (JObj kvs) k = (case map_of kvs k of None \<Rightarrow> JUndefined | Some v \<Rightarrow> v)"
| "getProp v k = JUndefined"

text \<open>\<^verbatim>\<open>delete o[k]\<close> on a property list.\<close>

definition deleteProp :: "string \<Rightarrow> (string \<times> json) list \<Rightarrow> (string \<times> json) list" where
  "deleteProp k kvs = filter (\<lambda>kv. fst kv \<noteq> k) kvs"

subsection \<open>Strings\<close>

definition lowerAlpha :: string where
  "lowerAlpha = ''abcdefghijklmnopqrstuvwxyz''"

definition upperAlpha :: string where
  "upperAlpha = ''ABCDEFGHIJKLMNOPQRSTUVWXYZ''"

text \<open>\<^verbatim>\<open>toUpperCase\<close> and \<^verbatim>\<open>toLowerCase\<close> on ASCII text; other characters are left as they are.\<close>

definition upperChar :: "char \<Rightarrow> char" where
  "upperChar c = (case map_of (zip lowerAlpha upperAlpha) c of None \<Rightarrow> c | Some d \<Rightarrow> d)"

definition lowerChar :: "char \<Rightarrow> char" where
  "lowerChar c = (case map_of (zip upperAlpha lowerAlpha) c of None \<Rightarrow> c | Some d \<Rightarrow> d)"

definition toUpperCase :: "string \<Rightarrow> string" where
  "toUpperCase s = map upperChar s"

definition toLowerCase :: "string \<Rightarrow> string" where
  "toLowerCase s = map lowerChar s"

definition isSpace :: "char \<Rightarrow> bool" where
  "isSpace c = (c \<in> set [CHR '' '', CHR 0x09, CHR 0x0A, CHR 0x0B, CHR 0x0C, CHR 0x0D])"

definition trim :: "string \<Rightarrow> string" where
  "trim s = rev (dropWhile isSpace (rev (dropWhile isSpace s)))"

definition startsWith :: "string \<Rightarrow> string \<Rightarrow> bool" where
  "startsWith s p = (take (length p) s = p)"

fun joinWith :: "string \<Rightarrow> string list \<Rightarrow> string" where
  "joinWith sep [] = []"
| "joinWith sep [x] = x"
| "joinWith sep (x # y # ys) = x @ sep @ joinWith sep (y # ys)"

text \<open>\<^verbatim>\<open>s.split('/')\<close>: never empty, one more part than there are separators.\<close>

fun split :: "char \<Rightarrow> string \<Rightarrow> string list" where
  "split sep [] = [[]]"
| "split sep (c # cs) =
     (if c = sep then [] # split sep cs
      else (case split sep cs of [] \<Rightarrow> [[c]] | p # ps \<Rightarrow> (c # p) # ps))"

definition digitChar :: "nat \<Rightarrow> char" where
  "digitChar d = ''0123456789'' ! (d mod 10)"

fun showNat :: "nat \<Rightarrow> string" where
  "showNat n = (if n < 10 then [digitChar n] else showNat (n div 10) @ [digitChar (n mod 10)])"

definition showInt :: "int \<Rightarrow> string" where
  "showInt i = (if i < 0 then CHR ''-'' # showNat (nat (- i)) else showNat (nat i))"

text \<open>The source text a built-in function prints as.\<close>

definition functionText :: "string \<Rightarrow> string" where
  "functionText n = ''function '' @ n @ ''() { [native code] }''"

text \<open>
  \<^verbatim>\<open>String(v)\<close>, the conversion a template literal applies: an array joins its elements
  with commas (null and undefined elements print as nothing), a plain object prints as
  \<^verbatim>\<open>[object Object]\<close>.
\<close>

fun jsString :: "json \<Rightarrow> string" where
  "jsString JUndefined = ''undefined''"
| "jsString JNull = ''null''"
| "jsString (JBool b) = (if b then ''true'' else ''false'')"
| "jsString (JNum n) = showInt n"
| "jsString (JStr s) = s"
| "jsString (JArr xs) =
     joinWith '','' (map (\<lambda>x. if x = JNull \<or> x = JUndefined then [] else jsString x) xs)"
| "jsString (JObj kvs) = ''[object Object]''"
| "jsString (JFunction n) = functionText n"

text \<open>
  The properties every object literal inherits from \<^verbatim>\<open>Object.prototype\<close>: eleven
  methods, and \<^verbatim>\<open>__proto__\<close>, which reads as the prototype object itself.
\<close>

definition objectPrototype :: "(string \<times> json) list" where
  "objectPrototype =
     [(''constructor'', JFunction ''Object''),
      (''__defineGetter__'', JFunction ''__defineGetter__''),
      (''__defineSetter__'', JFunction ''__defineSetter__''),
      (''hasOwnProperty'', JFunction ''hasOwnProperty''),
      (''__lookupGetter__'', JFunction ''__lookupGetter__''),
      (''__lookupSetter__'', JFunction ''__lookupSetter__''),
      (''isPrototypeOf'', JFunction ''isPrototypeOf''),
      (''propertyIsEnumerable'', JFunction ''propertyIsEnumerable''),
      (''toString'', JFunction ''toString''),
      (''valueOf'', JFunction ''valueOf''),
      (''toLocaleString'', JFunction ''toLocaleString'')]"

text \<open>
  \<^verbatim>\<open>table[key]\<close> on an object literal used as a lookup table: an own property, else
  an inherited one, else undefined.
\<close>

definition lookupProp :: "(string \<times> json) list \<Rightarrow> string \<Rightarrow> json" where
  "lookupProp table k =
     (case map_of table k of
        Some v \<Rightarrow> v
      | None \<Rightarrow>
          if k = ''__proto__'' then JObj objectPrototype
          else (case map_of objectPrototype k of Some f \<Rightarrow> f | None \<Rightarrow> JUndefined))"

text \<open>\<^verbatim>\<open>v.toString()\<close>: a method call, which throws on null and undefined.\<close>

definition toStringCall :: "json \<Rightarrow> exn + string" where
  "toStringCall v =
     (if v = JNull \<or> v = JUndefined then Inl (TypeError ''Cannot read properties of null or undefined'')
      else Inr (jsString v))"

text \<open>\<^verbatim>\<open>v.toUpperCase()\<close>: only a string has the method.\<close>

definition toUpperCaseCall :: "json \<Rightarrow> exn + string" where
  "toUpperCaseCall v =
     (case v of JStr s \<Rightarrow> Inr (toUpperCase s)
      | _ \<Rightarrow> Inl (TypeError ''toUpperCase is not a function''))"

text \<open>The ObjectId pattern \<^verbatim>\<open>/^[0-9a-fA-F]{24}$/\<close>.\<close>

definition isHex :: "char \<Rightarrow> bool" where
  "isHex c = (c \<in> set ''0123456789abcdefABCDEF'')"

definition objectIdRegex :: "string \<Rightarrow> bool" where
  "objectIdRegex s = (length s = 24 \<and> list_all isHex s)"

text \<open>\<^verbatim>\<open>a || b\<close> on optional strings: the empty string is falsy as well.\<close>

definition orElse :: "string option \<Rightarrow> string option \<Rightarrow> string option" where
  "orElse a b = (case a of Some s \<Rightarrow> (if s \<noteq> [] then a else b) | None \<Rightarrow> b)"

section \<open>The data model\<close>

type_synonym objectId = string

record user =
  u_id :: objectId
  u_name :: string
  u_email :: string
  u_password :: "string option"
  u_googleId :: "string option"
  u_avatar :: "string option"
  u_role :: string
  u_isEmailVerified :: bool
  u_isActive :: bool
  u_lastLogin :: "int option"
  u_loginAttempts :: nat
  u_lockUntil :: "int option"
  u_passwordResetToken :: "string option"
  u_passwordResetTokenExpires :: "int option"

record metadata =
  m_ip :: "string option"
  m_userAgent :: "string option"
  m_route :: "string option"
  m_method :: "string option"
  m_statusCode :: "int option"
  m_requestId :: "string option"

text \<open>The auditLogSchema: one document of the audit log collection.\<close>

record auditLog =
  al_userId :: objectId
  al_action :: string
  al_entity :: string
  al_entityId :: string
  al_before :: json
  al_after :: json
  al_metadata :: metadata
  al_timestamp :: int
  al_description :: string

text \<open>
  The document store, with what the code can observe of it: the two collections,
  whether the database answers, and the lines written by \<^verbatim>\<open>console.error\<close>.
\<close>

record store =
  users :: "user list"
  auditLogs :: "auditLog list"
  dbUp :: bool
  console :: "string list"

definition consoleError :: "string \<Rightarrow> store \<Rightarrow> store" where
  "consoleError msg st = st\<lparr>console := console st @ [msg]\<rparr>"

section \<open>The audit log model\<close>

text \<open>The arguments of \<^verbatim>\<open>createLog\<close>; \<^verbatim>\<open>changes = {}\<close> leaves both snapshots undefined.\<close>

record changes =
  c_before :: json
  c_after :: json

definition noChanges :: changes where
  "noChanges = \<lparr>c_before = JUndefined, c_after = JUndefined\<rparr>"

definition noMetadata :: metadata where
  "noMetadata = \<lparr>m_ip = None, m_userAgent = None, m_route = None, m_method = None,
     m_statusCode = None, m_requestId = None\<rparr>"

record logParams =
  p_userId :: objectId
  p_action :: json
  p_entity :: json
  p_entityId :: json
  p_changes :: changes
  p_metadata :: metadata
  p_description :: json

definition actionEnum :: "string list" where
  "actionEnum = [''CREATE'', ''READ'', ''UPDATE'', ''DELETE'']"

definition methodEnum :: "string list" where
  "methodEnum = [''GET'', ''POST'', ''PUT'', ''PATCH'', ''DELETE'']"

text \<open>A Mixed path with \<^verbatim>\<open>default: null\<close>: an undefined snapshot is stored as null.\<close>

definition mixedDefault :: "json \<Rightarrow> json" where
  "mixedDefault v = (if v = JUndefined then JNull else v)"

text \<open>
  The cast of a value to a String path: null and undefined stay as they are (\<open>None\<close>),
  a document with a string \<^verbatim>\<open>_id\<close> is cast to that id, a value with a
  \<^verbatim>\<open>toString\<close> of its own kind (string, number, boolean, function) to its string, and
  an array or a plain object is a cast error.
\<close>

definition castString :: "json \<Rightarrow> exn + string option" where
  "castString v =
     (case v of
        JUndefined \<Rightarrow> Inr None
      | JNull \<Rightarrow> Inr None
      | JArr xs \<Rightarrow> Inl (CastError ''Cast to string failed'')
      | JObj kvs \<Rightarrow>
          (case getProp v ''_id'' of
             JStr i \<Rightarrow> (if i \<noteq> [] then Inr (Some i) else Inl (CastError ''Cast to string failed''))
           | _ \<Rightarrow> Inl (CastError ''Cast to string failed''))
      | _ \<Rightarrow> Inr (Some (jsString v)))"

text \<open>
  \<^verbatim>\<open>new this({...})\<close>: the casts, setters (uppercase, trim) and defaults of the
  schema. A value that does not cast makes the document invalid, which \<^verbatim>\<open>save\<close>
  reports; \<open>None\<close> for the entity is a missing required path. A missing description
  is kept as the empty string.
\<close>

definition newAuditLog :: "int \<Rightarrow> objectId \<Rightarrow> string \<Rightarrow> json \<Rightarrow> string \<Rightarrow> changes \<Rightarrow>
    metadata \<Rightarrow> json \<Rightarrow> exn + auditLog" where
  "newAuditLog now uid act ent eid ch md descr =
     (case castString ent of
        Inl e \<Rightarrow> Inl (ValidationError ''AuditLog validation failed: entity'')
      | Inr None \<Rightarrow> Inl (ValidationError ''AuditLog validation failed: entity'')
      | Inr (Some entity) \<Rightarrow>
          (case castString descr of
             Inl e \<Rightarrow> Inl (ValidationError ''AuditLog validation failed: description'')
           | Inr description \<Rightarrow>
               Inr \<lparr>al_userId = uid,
                 al_action = toUpperCase act,
                 al_entity = trim entity,
                 al_entityId = eid,
                 al_before = mixedDefault (c_before ch),
                 al_after = mixedDefault (c_after ch),
                 al_metadata = \<lparr>m_ip = map_option trim (m_ip md),
                   m_userAgent = map_option trim (m_userAgent md),
                   m_route = map_option trim (m_route md),
                   m_method = map_option toUpperCase (m_method md),
                   m_statusCode = m_statusCode md,
                   m_requestId = map_option trim (m_requestId md)\<rparr>,
                 al_timestamp = now,
                 al_description = (case description of None \<Rightarrow> [] | Some d \<Rightarrow> trim d)\<rparr>))"

text \<open>The schema's validators: required paths, the ObjectId cast and the two enums.\<close>

definition validAuditLog :: "auditLog \<Rightarrow> bool" where
  "validAuditLog e =
     (objectIdRegex (al_userId e) \<and>
      al_action e \<in> set actionEnum \<and>
      al_entity e \<noteq> [] \<and>
      al_entityId e \<noteq> [] \<and>
      (case m_method (al_metadata e) of None \<Rightarrow> True | Some m \<Rightarrow> m \<in> set methodEnum))"

text \<open>
  The schema leaves the \<^verbatim>\<open>minimize\<close> option at its default: what is written is the
  document without its empty objects. \<open>dropUndefined\<close> removes the properties whose
  value has gone; \<open>minimize\<close> is the copy of a value inside the document, undefined
  when nothing of it is left. An object that is an element of an array is kept also
  when empty, and an undefined element is written as null.
\<close>

definition dropUndefined :: "(string \<times> json) list \<Rightarrow> (string \<times> json) list" where
  "dropUndefined m = filter (\<lambda>kv. map_of m (fst kv) \<noteq> Some JUndefined) m"

fun minimize :: "json \<Rightarrow> json"
  and minimizeElems :: "json list \<Rightarrow> json list"
  and minimizeProps :: "(string \<times> json) list \<Rightarrow> (string \<times> json) list" where
  "minimize (JObj kvs) =
     (let m = dropUndefined (minimizeProps kvs) in if m = [] then JUndefined else JObj m)"
| "minimize (JArr xs) = JArr (minimizeElems xs)"
| "minimize v = v"
| "minimizeElems [] = []"
| "minimizeElems (JObj kvs # xs) = JObj (dropUndefined (minimizeProps kvs)) # minimizeElems xs"
| "minimizeElems (JUndefined # xs) = JNull # minimizeElems xs"
| "minimizeElems (x # xs) = minimize x # minimizeElems xs"
| "minimizeProps [] = []"
| "minimizeProps ((k, v) # kvs) = (k, minimize v) # minimizeProps kvs"

text \<open>
  The document as it is written to the collection. A snapshot of which nothing is left
  is an absent path, read back as undefined.
\<close>

definition stored :: "auditLog \<Rightarrow> auditLog" where
  "stored e = e\<lparr>al_before := minimize (al_before e), al_after := minimize (al_after e)\<rparr>"

text \<open>
  \<^verbatim>\<open>auditLog.save()\<close>: rejects on a validation error or when the database is down;
  otherwise the minimised document is appended to the collection.
\<close>

definition saveAuditLog :: "store \<Rightarrow> auditLog \<Rightarrow> exn + store" where
  "saveAuditLog st e =
     (if \<not> validAuditLog e then Inl (ValidationError ''AuditLog validation failed'')
      else if \<not> dbUp st then Inl (MongoError ''database unavailable'')
      else Inr (st\<lparr>auditLogs := auditLogs st @ [stored e]\<rparr>))"

text \<open>
  The body of the \<^verbatim>\<open>try\<close> block of \<^verbatim>\<open>auditLogSchema.statics.createLog\<close>. The
  value of a successful \<^verbatim>\<open>save\<close> is the document in memory.
\<close>

definition AuditLog_createLog_body :: "store \<Rightarrow> int \<Rightarrow> logParams \<Rightarrow> exn + (store \<times> auditLog)" where
  "AuditLog_createLog_body st now p =
     (case toUpperCaseCall (p_action p) of
        Inl e \<Rightarrow> Inl e
      | Inr act \<Rightarrow>
          (case toStringCall (p_entityId p) of
             Inl e \<Rightarrow> Inl e
           | Inr eid \<Rightarrow>
               (case newAuditLog now (p_userId p) act (p_entity p) eid (p_changes p)
                       (p_metadata p) (p_description p) of
                  Inl e \<Rightarrow> Inl e
                | Inr doc \<Rightarrow>
                    (case saveAuditLog st doc of
                       Inl e \<Rightarrow> Inl e
                     | Inr st' \<Rightarrow> Inr (st', doc)))))"

text \<open>
  \<^verbatim>\<open>auditLogSchema.statics.createLog\<close>: the \<^verbatim>\<open>catch\<close> logs the error and returns null.
  The result is what the caller's \<^verbatim>\<open>await\<close> sees: \<open>Inl\<close> a rejection, \<open>Inr\<close> a value.
\<close>

definition AuditLog_createLog :: "store \<Rightarrow> int \<Rightarrow> logParams \<Rightarrow> store \<times> (exn + auditLog option)" where
  "AuditLog_createLog st now p =
     (case AuditLog_createLog_body st now p of
        Inl e \<Rightarrow> (consoleError ''Failed to create audit log:'' st, Inr None)
      | Inr (st', doc) \<Rightarrow> (st', Inr (Some doc)))"

section \<open>The audit recording service\<close>

text \<open>\<^verbatim>\<open>AuditLogService.createLog\<close>: a second \<^verbatim>\<open>try\<close>/\<^verbatim>\<open>catch\<close> around the model's method.\<close>

definition createLog :: "store \<Rightarrow> int \<Rightarrow> logParams \<Rightarrow> store \<times> (exn + auditLog option)" where
  "createLog st now p =
     (case AuditLog_createLog st now p of
        (st', Inl e) \<Rightarrow> (consoleError ''Audit log creation failed:'' st', Inr None)
      | (st', Inr r) \<Rightarrow> (st', Inr r))"

text \<open>The request, as far as the audit code and the controllers read it.\<close>

record request =
  req_user :: "user option"
  req_method :: string
  req_path :: string
  req_body :: json
  req_originalData :: json
  req_ip :: "string option"
  req_connectionRemoteAddress :: "string option"
  req_socketRemoteAddress :: "string option"
  req_userAgent :: "string option"
  req_routePath :: "string option"
  req_requestId :: "string option"

definition extractMetadata :: "request \<Rightarrow> metadata" where
  "extractMetadata req =
     \<lparr>m_ip = orElse (req_ip req) (orElse (req_connectionRemoteAddress req) (req_socketRemoteAddress req)),
      m_userAgent = req_userAgent req,
      m_route = (case req_routePath req of Some r \<Rightarrow> Some r | None \<Rightarrow> Some (req_path req)),
      m_method = Some (req_method req),
      m_statusCode = None,
      m_requestId = req_requestId req\<rparr>"

definition reqMetadata :: "request option \<Rightarrow> metadata" where
  "reqMetadata r = (case r of Some req \<Rightarrow> extractMetadata req | None \<Rightarrow> noMetadata)"

text \<open>\<^verbatim>\<open>description || `Created ${entity} with ID ${entityId}`\<close>.\<close>

definition describeOr :: "string \<Rightarrow> string \<Rightarrow> string \<Rightarrow> json \<Rightarrow> string" where
  "describeOr descr verb ent eid =
     (if descr \<noteq> [] then descr else verb @ '' '' @ ent @ '' with ID '' @ jsString eid)"

definition logCreate :: "store \<Rightarrow> int \<Rightarrow> objectId \<Rightarrow> string \<Rightarrow> json \<Rightarrow> json \<Rightarrow> request option \<Rightarrow>
    string \<Rightarrow> store \<times> (exn + auditLog option)" where
  "logCreate st now uid ent eid dat req descr =
     createLog st now
       \<lparr>p_userId = uid, p_action = JStr ''CREATE'', p_entity = JStr ent, p_entityId = eid,
        p_changes = \<lparr>c_before = JNull, c_after = dat\<rparr>,
        p_metadata = reqMetadata req,
        p_description = JStr (describeOr descr ''Created'' ent eid)\<rparr>"

definition logRead :: "store \<Rightarrow> int \<Rightarrow> objectId \<Rightarrow> string \<Rightarrow> json \<Rightarrow> request option \<Rightarrow>
    string \<Rightarrow> store \<times> (exn + auditLog option)" where
  "logRead st now uid ent eid req descr =
     createLog st now
       \<lparr>p_userId = uid, p_action = JStr ''READ'', p_entity = JStr ent, p_entityId = eid,
        p_changes = noChanges,
        p_metadata = reqMetadata req,
        p_description = JStr (describeOr descr ''Accessed'' ent eid)\<rparr>"

definition logUpdate :: "store \<Rightarrow> int \<Rightarrow> objectId \<Rightarrow> string \<Rightarrow> json \<Rightarrow> json \<Rightarrow> json \<Rightarrow>
    request option \<Rightarrow> string \<Rightarrow> store \<times> (exn + auditLog option)" where
  "logUpdate st now uid ent eid before after req descr =
     createLog st now
       \<lparr>p_userId = uid, p_action = JStr ''UPDATE'', p_entity = JStr ent, p_entityId = eid,
        p_changes = \<lparr>c_before = before, c_after = after\<rparr>,
        p_metadata = reqMetadata req,
        p_description = JStr (describeOr descr ''Updated'' ent eid)\<rparr>"

definition logDelete :: "store \<Rightarrow> int \<Rightarrow> objectId \<Rightarrow> string \<Rightarrow> json \<Rightarrow> json \<Rightarrow> request option \<Rightarrow>
    string \<Rightarrow> store \<times> (exn + auditLog option)" where
  "logDelete st now uid ent eid dat req descr =
     createLog st now
       \<lparr>p_userId = uid, p_action = JStr ''DELETE'', p_entity = JStr ent, p_entityId = eid,
        p_changes = \<lparr>c_before = dat, c_after = JNull\<rparr>,
        p_metadata = reqMetadata req,
        p_description = JStr (describeOr descr ''Deleted'' ent eid)\<rparr>"

section \<open>The automatic audit interceptor\<close>

definition skipRoutes :: "string list" where
  "skipRoutes = [''/health'', ''/api/audit'', ''/favicon.ico'']"

definition shouldSkip :: "string \<Rightarrow> bool" where
  "shouldSkip path = list_ex (\<lambda>route. startsWith path route) skipRoutes"

definition sensitiveEndpoints :: "string list" where
  "sensitiveEndpoints = [''/api/auth/profile'', ''/api/auth/me'', ''/api/user'', ''/api/admin'']"

definition shouldLogGetRequest :: "string \<Rightarrow> bool" where
  "shouldLogGetRequest path = list_ex (\<lambda>endpoint. startsWith path endpoint) sensitiveEndpoints"

definition methodActionMap :: "(string \<times> string) list" where
  "methodActionMap = [(''POST'', ''CREATE''), (''GET'', ''READ''), (''PUT'', ''UPDATE''),
     (''PATCH'', ''UPDATE''), (''DELETE'', ''DELETE'')]"

text \<open>A table of strings as the object literal it is written as.\<close>

definition literal :: "(string \<times> string) list \<Rightarrow> (string \<times> json) list" where
  "literal table = map (\<lambda>kv. (fst kv, JStr (snd kv))) table"

text \<open>\<^verbatim>\<open>methodActionMap[method] || 'READ'\<close>.\<close>

definition getActionFromMethod :: "string \<Rightarrow> json" where
  "getActionFromMethod m =
     (let a = lookupProp (literal methodActionMap) m in if truthy a then a else JStr ''READ'')"

definition entityMap :: "(string \<times> string) list" where
  "entityMap = [(''auth/signup'', ''User''), (''auth/signin'', ''User''), (''auth/google'', ''User''),
     (''auth/profile'', ''User''), (''auth/me'', ''User''), (''auth/reset-password'', ''User''),
     (''auth/forgot-password'', ''User''), (''users'', ''User''), (''audit'', ''AuditLog'')]"

text \<open>\<^verbatim>\<open>path.replace(/^\/api\//, '')\<close>.\<close>

definition stripApi :: "string \<Rightarrow> string" where
  "stripApi path = (if startsWith path ''/api/'' then drop 5 path else path)"

text \<open>\<^verbatim>\<open>s.charAt(0).toUpperCase() + s.slice(1)\<close>.\<close>

definition capitalize :: "string \<Rightarrow> string" where
  "capitalize s = (case s of [] \<Rightarrow> [] | c # cs \<Rightarrow> upperChar c # cs)"

text \<open>
  \<^verbatim>\<open>extractEntityFromPath\<close>: what the table holds under the whole path, when that is
  truthy (an entry of the table, or a property every object inherits); then the first
  key of the table that is a prefix of the path; then the first segment capitalised.
  \<open>JNull\<close> is the \<^verbatim>\<open>null\<close> of the first return.
\<close>

definition extractEntityFromPath :: "string \<Rightarrow> json" where
  "extractEntityFromPath path =
     (let pathParts = split CHR ''/'' (stripApi path) in
      if length pathParts = 0 then JNull
      else
        (let fullPath = joinWith ''/'' pathParts in
         if truthy (lookupProp (literal entityMap) fullPath)
           then lookupProp (literal entityMap) fullPath
         else
           (case find (\<lambda>kv. startsWith fullPath (fst kv)) entityMap of
              Some kv \<Rightarrow> JStr (snd kv)
            | None \<Rightarrow> JStr (capitalize (hd pathParts)))))"

text \<open>
  \<^verbatim>\<open>extractEntityIdFromPath\<close>: a path segment of ObjectId shape, else the response
  payload, else the request body, else the string \<^verbatim>\<open>'unknown'\<close>.
\<close>

definition extractEntityIdFromPath :: "string \<Rightarrow> json \<Rightarrow> json \<Rightarrow> json" where
  "extractEntityIdFromPath path body responseData =
     (case find objectIdRegex (split CHR ''/'' path) of
        Some part \<Rightarrow> JStr part
      | None \<Rightarrow>
          (let dat = getProp responseData ''data'' in
           if truthy responseData \<and> truthy dat \<and> truthy (getProp dat ''id'') then getProp dat ''id''
           else if truthy responseData \<and> truthy dat \<and> truthy (getProp dat ''_id'') then getProp dat ''_id''
           else if truthy responseData \<and> truthy dat \<and> truthy (getProp dat ''user'') \<and>
                   truthy (getProp (getProp dat ''user'') ''id'')
             then getProp (getProp dat ''user'') ''id''
           else if truthy body \<and> truthy (getProp body ''id'') then getProp body ''id''
           else if truthy body \<and> truthy (getProp body ''_id'') then getProp body ''_id''
           else if truthy body \<and> truthy (getProp body ''userId'') then getProp body ''userId''
           else JStr ''unknown''))"

definition sensitiveFields :: "string list" where
  "sensitiveFields = [''password'', ''passwordResetToken'', ''emailVerificationToken'',
     ''refreshToken'', ''accessToken'']"

text \<open>\<^verbatim>\<open>typeof v === 'object'\<close>.\<close>

fun isObjectType :: "json \<Rightarrow> bool" where
  "isObjectType JNull = True"
| "isObjectType (JArr xs) = True"
| "isObjectType (JObj kvs) = True"
| "isObjectType v = False"

text \<open>\<^verbatim>\<open>{ ...data }\<close>: the own properties; an array spreads into its indices.\<close>

fun spread :: "json \<Rightarrow> (string \<times> json) list" where
  "spread (JObj kvs) = kvs"
| "spread (JArr xs) = zip (map showNat [0..<length xs]) xs"
| "spread v = []"

definition removeIfSet :: "string \<Rightarrow> (string \<times> json) list \<Rightarrow> (string \<times> json) list" where
  "removeIfSet field kvs = (if truthy (getProp (JObj kvs) field) then deleteProp field kvs else kvs)"

definition sanitizeData :: "json \<Rightarrow> json" where
  "sanitizeData dat =
     (if \<not> truthy dat \<or> \<not> isObjectType dat then dat
      else JObj (fold removeIfSet sensitiveFields (spread dat)))"

definition actionDescriptions :: "json \<Rightarrow> (string \<times> string) list" where
  "actionDescriptions ent =
     [(''CREATE'', ''Created '' @ jsString ent), (''READ'', ''Accessed '' @ jsString ent),
      (''UPDATE'', ''Updated '' @ jsString ent), (''DELETE'', ''Deleted '' @ jsString ent)]"

text \<open>
  \<^verbatim>\<open>generateDescription\<close>. The action is the key of a lookup, so it is read as a
  string; what the lookup finds is returned as it is when no id is appended.
\<close>

definition generateDescription :: "json \<Rightarrow> json \<Rightarrow> json \<Rightarrow> json" where
  "generateDescription act ent eid =
     (let found = lookupProp (literal (actionDescriptions ent)) (jsString act);
          baseDescription = (if truthy found then found
                             else JStr (jsString act @ '' '' @ jsString ent))
      in if truthy eid \<and> eid \<noteq> JStr ''unknown''
           then JStr (jsString baseDescription @ '' with ID '' @ jsString eid)
         else baseDescription)"

text \<open>\<^verbatim>\<open>req.originalData || null\<close>.\<close>

definition orNull :: "json \<Rightarrow> json" where
  "orNull v = (if truthy v then v else JNull)"

definition requestChanges :: "request \<Rightarrow> json \<Rightarrow> changes" where
  "requestChanges req responseData =
     (if req_method req = ''POST'' \<and> truthy responseData \<and> truthy (getProp responseData ''data'')
        then \<lparr>c_before = JNull, c_after = sanitizeData (getProp responseData ''data'')\<rparr>
      else if req_method req = ''PUT'' \<or> req_method req = ''PATCH''
        then \<lparr>c_before = orNull (req_originalData req), c_after = sanitizeData (req_body req)\<rparr>
      else if req_method req = ''DELETE''
        then \<lparr>c_before = orNull (req_originalData req), c_after = JNull\<rparr>
      else noChanges)"

definition requestMetadata :: "request \<Rightarrow> int \<Rightarrow> metadata" where
  "requestMetadata req statusCode =
     \<lparr>m_ip = orElse (req_ip req) (req_connectionRemoteAddress req),
      m_userAgent = req_userAgent req,
      m_route = (case req_routePath req of Some r \<Rightarrow> Some r | None \<Rightarrow> Some (req_path req)),
      m_method = Some (req_method req),
      m_statusCode = Some statusCode,
      m_requestId = req_requestId req\<rparr>"

text \<open>
  \<^verbatim>\<open>logRequest\<close>, run after the response has been sent. It returns nothing; its effect
  is the store it leaves behind.
\<close>

definition logRequest :: "store \<Rightarrow> int \<Rightarrow> request \<Rightarrow> json \<Rightarrow> int \<Rightarrow> store" where
  "logRequest st now req responseData statusCode =
     (case req_user req of
        None \<Rightarrow> st
      | Some u \<Rightarrow>
          if req_method req = ''GET'' \<and> \<not> shouldLogGetRequest (req_path req) then st
          else
            (let action = getActionFromMethod (req_method req);
                 entity = extractEntityFromPath (req_path req);
                 entityId = extractEntityIdFromPath (req_path req) (req_body req) responseData
             in if \<not> truthy entity \<or> \<not> truthy entityId then st
                else
                  (case createLog st now
                          \<lparr>p_userId = u_id u, p_action = action, p_entity = entity,
                           p_entityId = entityId,
                           p_changes = requestChanges req responseData,
                           p_metadata = requestMetadata req statusCode,
                           p_description = generateDescription action entity entityId\<rparr> of
                     (st', Inl e) \<Rightarrow> consoleError ''Failed to create audit log:'' st'
                   | (st', Inr r) \<Rightarrow> st')))"

text \<open>\<^verbatim>\<open>auditLogger\<close>: the paths of the skip list are not observed at all.\<close>

definition auditLogger :: "store \<Rightarrow> int \<Rightarrow> request \<Rightarrow> json \<Rightarrow> int \<Rightarrow> store" where
  "auditLogger st now req responseData statusCode =
     (if shouldSkip (req_path req) then st else logRequest st now req responseData statusCode)"


section \<open>The token service\<close>

text \<open>
  \<^verbatim>\<open>JSON.parse(JSON.stringify(v))\<close> for a value inside a document: a property whose
  value is undefined or a function is left out, such an element of an array becomes
  null. This is what the payload segment of a token holds of the payload that was
  signed: the segment is the JSON text, which is read back when the token is verified.
\<close>

fun jsonClone :: "json \<Rightarrow> json"
  and jsonCloneElems :: "json list \<Rightarrow> json list"
  and jsonCloneProps :: "(string \<times> json) list \<Rightarrow> (string \<times> json) list" where
  "jsonClone (JObj kvs) = JObj (jsonCloneProps kvs)"
| "jsonClone (JArr xs) = JArr (jsonCloneElems xs)"
| "jsonClone v = v"
| "jsonCloneElems [] = []"
| "jsonCloneElems (JUndefined # xs) = JNull # jsonCloneElems xs"
| "jsonCloneElems (JFunction n # xs) = JNull # jsonCloneElems xs"
| "jsonCloneElems (x # xs) = jsonClone x # jsonCloneElems xs"
| "jsonCloneProps [] = []"
| "jsonCloneProps ((k, JUndefined) # kvs) = jsonCloneProps kvs"
| "jsonCloneProps ((k, JFunction n) # kvs) = jsonCloneProps kvs"
| "jsonCloneProps ((k, v) # kvs) = (k, jsonClone v) # jsonCloneProps kvs"

text \<open>
  A token that parses: the payload its second segment holds, and its signature. The
  header is the same for every token of the service (HS256, JWT). The HMAC is kept
  symbolic: a signature is the key and the content it was computed over, and verifies
  under a key exactly when it was made with that key over the content the token
  carries.
\<close>

record jwt =
  jwt_payload :: json
  jwt_sig :: "string \<times> json"

text \<open>What a caller may present as a token: any string, most of which do not parse.\<close>

datatype token = Malformed string | Token jwt

text \<open>
  The JWTService instance: the secrets and lifetimes read from the environment. A
  lifetime is kept twice: the configured text, and the milliseconds the library's
  time-span parser reads from it (\<open>None\<close> when it does not parse).
\<close>

record jwtService =
  js_secret :: string
  js_expiresIn :: string
  js_expiresInMs :: "int option"
  js_refreshSecret :: string
  js_refreshExpiresIn :: string
  js_refreshExpiresInMs :: "int option"
  js_issuer :: string

text \<open>\<^verbatim>\<open>payload[k] = v\<close> on a property list: in place when the key is there, else at the end.\<close>

definition setProp :: "string \<Rightarrow> json \<Rightarrow> (string \<times> json) list \<Rightarrow> (string \<times> json) list" where
  "setProp k v kvs =
     (if map_of kvs k = None then kvs @ [(k, v)]
      else map (\<lambda>kv. if fst kv = k then (k, v) else kv) kvs)"

text \<open>A name between double quotes, as the library's messages write it.\<close>

definition quoted :: "string \<Rightarrow> string" where
  "quoted s = CHR 0x22 # s @ [CHR 0x22]"

text \<open>\<^verbatim>\<open>typeof v\<close>.\<close>

fun typeofJs :: "json \<Rightarrow> string" where
  "typeofJs JUndefined = ''undefined''"
| "typeofJs JNull = ''object''"
| "typeofJs (JBool b) = ''boolean''"
| "typeofJs (JNum n) = ''number''"
| "typeofJs (JStr s) = ''string''"
| "typeofJs (JArr xs) = ''object''"
| "typeofJs (JObj kvs) = ''object''"
| "typeofJs (JFunction n) = ''function''"

definition isNumber :: "json \<Rightarrow> bool" where
  "isNumber v = (case v of JNum n \<Rightarrow> True | _ \<Rightarrow> False)"

definition timeClaims :: "string list" where
  "timeClaims = [''iat'', ''exp'', ''nbf'']"

text \<open>
  The library's check of a payload object: it walks the keys of the payload in their
  order, and the first of iat, exp and nbf whose value is not a number is reported.
\<close>

definition validatePayload :: "(string \<times> json) list \<Rightarrow> exn option" where
  "validatePayload kvs =
     (case find (\<lambda>kv. fst kv \<in> set timeClaims \<and> \<not> isNumber (snd kv)) kvs of
        None \<Rightarrow> None
      | Some kv \<Rightarrow> Some (Error (quoted (fst kv) @ '' should be a number of seconds'')))"

text \<open>
  \<^verbatim>\<open>jwt.sign(payload, secret, { expiresIn, issuer, audience })\<close> of the jsonwebtoken
  library at the clock \<open>now\<close> (milliseconds), called without a callback, so that each
  failure is thrown; the steps are in the order of the library. The secret must not be
  empty. An undefined payload is refused; a payload of type object must be a plain
  object whose iat, exp and nbf are numbers; any other payload (a string, a number) is
  refused because the three options are for objects only. A payload that carries exp
  already is refused. The time stamp is the payload's iat when that is truthy, else the
  current second; iat is set to it, and exp to the time stamp plus the lifetime in
  seconds, rounded down (the lifetime is the configured text read by the library's
  time-span parser, \<open>None\<close> when it does not parse). Then aud and iss are set, each
  refused when the payload carries it already. The payload segment of the token is
  the JSON text of the result.
\<close>

definition jwt_sign :: "int \<Rightarrow> json \<Rightarrow> string \<Rightarrow> int option \<Rightarrow> string \<Rightarrow> string \<Rightarrow> exn + jwt" where
  "jwt_sign now payload secret expiresInMs issuer audience =
     (if secret = [] then Inl (Error ''secretOrPrivateKey must have a value'')
      else
        (case payload of
           JUndefined \<Rightarrow> Inl (Error ''payload is required'')
         | JObj kvs \<Rightarrow>
             (case validatePayload kvs of
                Some e \<Rightarrow> Inl e
              | None \<Rightarrow>
                  if getProp payload ''exp'' \<noteq> JUndefined
                    then Inl (Error (''Bad '' @ quoted ''options.expiresIn'' @
                           '' option the payload already has an '' @ quoted ''exp'' @ '' property.''))
                  else
                    (let timestamp = (if truthy (getProp payload ''iat'')
                                      then (case getProp payload ''iat'' of JNum n \<Rightarrow> n | _ \<Rightarrow> 0)
                                      else now div 1000);
                         p1 = setProp ''iat'' (JNum timestamp) kvs
                     in case expiresInMs of
                          None \<Rightarrow> Inl (Error (quoted ''expiresIn'' @
                            '' should be a number of seconds or string representing a timespan eg: ''
                            @ quoted ''1d'' @ '', '' @ quoted ''20h'' @ '', 60''))
                        | Some ms \<Rightarrow>
                            (let p2 = setProp ''exp'' (JNum (timestamp + ms div 1000)) p1 in
                             if getProp (JObj p2) ''aud'' \<noteq> JUndefined
                               then Inl (Error (''Bad '' @ quoted ''options.audience'' @
                                      '' option. The payload already has an '' @ quoted ''aud'' @
                                      '' property.''))
                             else
                               (let p3 = setProp ''aud'' (JStr audience) p2 in
                                if getProp (JObj p3) ''iss'' \<noteq> JUndefined
                                  then Inl (Error (''Bad '' @ quoted ''options.issuer'' @
                                         '' option. The payload already has an '' @ quoted ''iss'' @
                                         '' property.''))
                                else
                                  (let content = jsonClone (JObj (setProp ''iss'' (JStr issuer) p3))
                                   in Inr \<lparr>jwt_payload = content, jwt_sig = (secret, content)\<rparr>)))))
         | JNull \<Rightarrow> Inl (Error (''Expected '' @ quoted ''payload'' @ '' to be a plain object.''))
         | JArr xs \<Rightarrow> Inl (Error (''Expected '' @ quoted ''payload'' @ '' to be a plain object.''))
         | _ \<Rightarrow> Inl (Error (''invalid expiresIn,audience,issuer option for '' @ typeofJs payload @
                          '' payload''))))"

text \<open>The check of the exp claim: absent, or a number the current second is before.\<close>

definition checkExp :: "int \<Rightarrow> json \<Rightarrow> exn + json" where
  "checkExp now payload =
     (case getProp payload ''exp'' of
        JUndefined \<Rightarrow> Inr payload
      | JNum exp \<Rightarrow> (if now div 1000 \<ge> exp then Inl TokenExpiredError else Inr payload)
      | _ \<Rightarrow> Inl (JsonWebTokenError ''invalid exp value''))"

text \<open>
  \<^verbatim>\<open>jwt.verify(token, secret)\<close> with no options: the token must parse, the signature
  must verify, an nbf it carries must be a number that is not after the current second,
  an exp it carries a number the current second is before. Audience and issuer are not
  checked, since the caller passes no option.
\<close>

definition jwt_verify :: "int \<Rightarrow> token \<Rightarrow> string \<Rightarrow> exn + json" where
  "jwt_verify now tok secret =
     (case tok of
        Malformed s \<Rightarrow> Inl (JsonWebTokenError ''jwt malformed'')
      | Token t \<Rightarrow>
          if jwt_sig t \<noteq> (secret, jwt_payload t) then Inl (JsonWebTokenError ''invalid signature'')
          else
            (case getProp (jwt_payload t) ''nbf'' of
               JUndefined \<Rightarrow> checkExp now (jwt_payload t)
             | JNum nbf \<Rightarrow>
                 if nbf > now div 1000 then Inl NotBeforeError else checkExp now (jwt_payload t)
             | _ \<Rightarrow> Inl (JsonWebTokenError ''invalid nbf value'')))"

definition generateAccessToken :: "jwtService \<Rightarrow> int \<Rightarrow> json \<Rightarrow> exn + jwt" where
  "generateAccessToken js now payload =
     jwt_sign now payload (js_secret js) (js_expiresInMs js) (js_issuer js) ''user''"

definition generateRefreshToken :: "jwtService \<Rightarrow> int \<Rightarrow> json \<Rightarrow> exn + jwt" where
  "generateRefreshToken js now payload =
     jwt_sign now payload (js_refreshSecret js) (js_refreshExpiresInMs js) (js_issuer js) ''refresh''"

definition verifyAccessToken :: "jwtService \<Rightarrow> int \<Rightarrow> token \<Rightarrow> exn + json" where
  "verifyAccessToken js now tok =
     (case jwt_verify now tok (js_secret js) of
        Inr decoded \<Rightarrow> Inr decoded
      | Inl TokenExpiredError \<Rightarrow> Inl (Error ''Access token has expired'')
      | Inl (JsonWebTokenError m) \<Rightarrow> Inl (Error ''Invalid access token'')
      | Inl e \<Rightarrow> Inl e)"

definition verifyRefreshToken :: "jwtService \<Rightarrow> int \<Rightarrow> token \<Rightarrow> exn + json" where
  "verifyRefreshToken js now tok =
     (case jwt_verify now tok (js_refreshSecret js) of
        Inr decoded \<Rightarrow> Inr decoded
      | Inl TokenExpiredError \<Rightarrow> Inl (Error ''Refresh token has expired'')
      | Inl (JsonWebTokenError m) \<Rightarrow> Inl (Error ''Invalid refresh token'')
      | Inl e \<Rightarrow> Inl e)"

record tokens =
  accessToken :: jwt
  refreshToken :: jwt
  expiresIn :: string

text \<open>
  \<^verbatim>\<open>generateTokens\<close>: the payload of the access token is \<^verbatim>\<open>{ id, email, role }\<close>,
  that of the refresh token \<^verbatim>\<open>{ id }\<close>.
\<close>

definition accessPayload :: "user \<Rightarrow> json" where
  "accessPayload u =
     JObj [(''id'', JStr (u_id u)), (''email'', JStr (u_email u)),
           (''role'', JStr (if u_role u \<noteq> [] then u_role u else ''user''))]"

definition generateTokens :: "jwtService \<Rightarrow> int \<Rightarrow> user \<Rightarrow> exn + tokens" where
  "generateTokens js now u =
     (let payload = accessPayload u
      in case generateAccessToken js now payload of
           Inl e \<Rightarrow> Inl e
         | Inr a \<Rightarrow>
             (case generateRefreshToken js now (JObj [(''id'', getProp payload ''id'')]) of
                Inl e \<Rightarrow> Inl e
              | Inr r \<Rightarrow> Inr \<lparr>accessToken = a, refreshToken = r, expiresIn = js_expiresIn js\<rparr>))"



section \<open>The credential store\<close>

text \<open>Reads and writes of the users collection reject when the database is down.\<close>

definition User_findOne :: "store \<Rightarrow> (user \<Rightarrow> bool) \<Rightarrow> exn + user option" where
  "User_findOne st P =
     (if dbUp st then Inr (find P (users st)) else Inl (MongoError ''database unavailable''))"

text \<open>Writing back a document that is already in the collection, found by its id.\<close>

definition User_update :: "store \<Rightarrow> user \<Rightarrow> exn + store" where
  "User_update st u =
     (if dbUp st
      then Inr (st\<lparr>users := map (\<lambda>x. if u_id x = u_id u then u else x) (users st)\<rparr>)
      else Inl (MongoError ''database unavailable''))"

text \<open>Saving a new document.\<close>

definition User_insert :: "store \<Rightarrow> user \<Rightarrow> exn + store" where
  "User_insert st u =
     (if dbUp st then Inr (st\<lparr>users := users st @ [u]\<rparr>)
      else Inl (MongoError ''database unavailable''))"

definition lockThreshold :: nat where
  "lockThreshold = 5"

definition lockTime :: int where
  "lockTime = 2 * 60 * 60 * 1000"

text \<open>
  Modelled from the spec: the \<^verbatim>\<open>isLocked\<close> virtual of the User model, which is not among
  the sources. It is derived from lock-until being later than now.
\<close>

definition isLocked :: "int \<Rightarrow> user \<Rightarrow> bool" where
  "isLocked now u = (case u_lockUntil u of None \<Rightarrow> False | Some t \<Rightarrow> now < t)"

text \<open>
  Modelled from the spec: \<^verbatim>\<open>incLoginAttempts\<close> of the User model, which is not among
  the sources. It increments the counter; when the counter crosses the threshold (5)
  it sets lock-until to now plus two hours and resets the counter.
\<close>

definition incLoginAttempts :: "int \<Rightarrow> user \<Rightarrow> user" where
  "incLoginAttempts now u =
     (if Suc (u_loginAttempts u) \<ge> lockThreshold
      then u\<lparr>u_loginAttempts := 0, u_lockUntil := Some (now + lockTime)\<rparr>
      else u\<lparr>u_loginAttempts := Suc (u_loginAttempts u)\<rparr>)"

text \<open>
  Modelled from the spec: \<^verbatim>\<open>resetLoginAttempts\<close> of the User model, which is not among
  the sources. It clears the counter and lock-until.
\<close>

definition resetLoginAttempts :: "user \<Rightarrow> user" where
  "resetLoginAttempts u = u\<lparr>u_loginAttempts := 0, u_lockUntil := None\<rparr>"

text \<open>
  Modelled from the spec: \<^verbatim>\<open>comparePassword\<close> of the User model, which is not among the
  sources. It compares the candidate with the stored hash; \<open>cmp\<close> is the hash
  comparison. An account without a password hash matches no candidate.
\<close>

definition comparePassword :: "(string \<Rightarrow> string \<Rightarrow> bool) \<Rightarrow> user \<Rightarrow> string \<Rightarrow> bool" where
  "comparePassword cmp u candidate =
     (case u_password u of None \<Rightarrow> False | Some h \<Rightarrow> cmp candidate h)"

definition resetTokenLifetime :: int where
  "resetTokenLifetime = 10 * 60 * 1000"

text \<open>
  Modelled from the spec: \<^verbatim>\<open>createPasswordResetToken\<close> of the User model, which is not
  among the sources. It stores the one-way hash of a fresh random token with an expiry
  of ten minutes and returns the plaintext.
\<close>

definition createPasswordResetToken :: "(string \<Rightarrow> string) \<Rightarrow> string \<Rightarrow> int \<Rightarrow> user \<Rightarrow> string \<times> user" where
  "createPasswordResetToken hash rnd now u =
     (rnd, u\<lparr>u_passwordResetToken := Some (hash rnd),
             u_passwordResetTokenExpires := Some (now + resetTokenLifetime)\<rparr>)"

section \<open>The authentication controller\<close>

text \<open>What the Google identity verifier returns for a valid identity token.\<close>

record googleUser =
  g_googleId :: string
  g_email :: string
  g_name :: string
  g_avatar :: "string option"
  g_isEmailVerified :: bool

text \<open>
  The collaborators of the controllers: the token service, the hash functions, the
  randomness, the mail transport and the Google verifier. The outcome of a call that
  leaves the process is a field of this record.
\<close>

record env =
  env_jwt :: jwtService
  env_bcryptCompare :: "string \<Rightarrow> string \<Rightarrow> bool"
  env_sha256 :: "string \<Rightarrow> string"
  env_randomToken :: string
  env_newObjectId :: objectId
  env_emailConfigured :: bool
  env_sendPasswordResetEmail :: "string \<Rightarrow> string \<Rightarrow> string \<Rightarrow> exn + unit"
  env_verifyGoogleToken :: "string \<Rightarrow> exn + googleUser"

text \<open>The user object of a response body.\<close>

record userView =
  v_id :: objectId
  v_name :: string
  v_email :: string
  v_role :: string
  v_avatar :: "string option"
  v_isEmailVerified :: bool
  v_lastLogin :: "int option"

definition viewOf :: "user \<Rightarrow> userView" where
  "viewOf u = \<lparr>v_id = u_id u, v_name = u_name u, v_email = u_email u, v_role = u_role u,
     v_avatar = u_avatar u, v_isEmailVerified = u_isEmailVerified u, v_lastLogin = u_lastLogin u\<rparr>"

text \<open>
  What a controller does with the response: \<open>Json\<close> is \<^verbatim>\<open>res.status(n).json(body)\<close>;
  \<open>AuthJson n message user tokens isNewUser\<close> is the body
  \<^verbatim>\<open>{ success: true, message, data: { user, ...tokens, isNewUser } }\<close> of the two sign-in
  endpoints; \<open>Next\<close> is \<^verbatim>\<open>next(error)\<close>, which the error handler turns into an error
  response with the status of the error.
\<close>

datatype response =
    Json nat json
  | AuthJson nat string userView tokens "bool option"
  | Next exn

definition message :: "exn \<Rightarrow> string" where
  "message e =
     (case e of
        TypeError m \<Rightarrow> m | ValidationError m \<Rightarrow> m | CastError m \<Rightarrow> m | MongoError m \<Rightarrow> m
      | HttpError n m \<Rightarrow> m | TokenExpiredError \<Rightarrow> ''jwt expired''
      | NotBeforeError \<Rightarrow> ''jwt not active'' | JsonWebTokenError m \<Rightarrow> m
      | Error m \<Rightarrow> m)"

fun includesStr :: "string \<Rightarrow> string \<Rightarrow> bool" where
  "includesStr [] p = (p = [])"
| "includesStr (c # cs) p = (startsWith (c # cs) p \<or> includesStr cs p)"

text \<open>
  \<^verbatim>\<open>AuthController.signin\<close>. \<open>email\<close> and \<open>password\<close> are the two fields of the
  validated request body.
\<close>

definition signin :: "env \<Rightarrow> store \<Rightarrow> int \<Rightarrow> request \<Rightarrow> string \<Rightarrow> string \<Rightarrow> store \<times> response" where
  "signin env st now req email password =
     (case User_findOne st (\<lambda>u. u_email u = toLowerCase email) of
        Inl e \<Rightarrow> (st, Next e)
      | Inr None \<Rightarrow> (st, Next (HttpError 401 ''Invalid email or password''))
      | Inr (Some u) \<Rightarrow>
          if isLocked now u
            then (st, Next (HttpError 423
                   ''Account is temporarily locked due to multiple failed login attempts''))
          else if \<not> u_isActive u then (st, Next (HttpError 401 ''Account is deactivated''))
          else if \<not> comparePassword (env_bcryptCompare env) u password
            then (case User_update st (incLoginAttempts now u) of
                    Inl e \<Rightarrow> (st, Next e)
                  | Inr st1 \<Rightarrow> (st1, Next (HttpError 401 ''Invalid email or password'')))
          else
            (let u1 = (if u_loginAttempts u > 0 then resetLoginAttempts u else u) in
             case (if u_loginAttempts u > 0 then User_update st u1 else Inr st) of
               Inl e \<Rightarrow> (st, Next e)
             | Inr st1 \<Rightarrow>
                 (let u2 = u1\<lparr>u_lastLogin := Some now\<rparr> in
                  case User_update st1 u2 of
                    Inl e \<Rightarrow> (st1, Next e)
                  | Inr st2 \<Rightarrow>
                      (case generateTokens (env_jwt env) now u2 of
                         Inl e \<Rightarrow> (st2, Next e)
                       | Inr toks \<Rightarrow>
                           (case logRead st2 now (u_id u2) ''User'' (JStr (u_id u2)) (Some req)
                                   ''User signed in with email and password'' of
                              (st3, Inl e) \<Rightarrow> (st3, Next e)
                            | (st3, Inr r) \<Rightarrow>
                                (st3, AuthJson 200 ''Login successful'' (viewOf u2) toks None))))))"

text \<open>\<^verbatim>\<open>!s\<close> on an optional string.\<close>

definition unset :: "string option \<Rightarrow> bool" where
  "unset v = (case v of None \<Rightarrow> True | Some s \<Rightarrow> s = [])"

text \<open>The catch clause of \<^verbatim>\<open>googleAuth\<close>.\<close>

definition googleCatch :: "exn \<Rightarrow> response" where
  "googleCatch e = (if includesStr (message e) ''Google'' then Next (HttpError 400 (message e)) else Next e)"

text \<open>The fields \<^verbatim>\<open>googleAuth\<close> fills in on an existing account.\<close>

definition googleBackfill :: "googleUser \<Rightarrow> user \<Rightarrow> user" where
  "googleBackfill g u =
     (let u1 = (if unset (u_googleId u) then u\<lparr>u_googleId := Some (g_googleId g)\<rparr> else u);
          u2 = (if unset (u_avatar u1) \<and> \<not> unset (g_avatar g) then u1\<lparr>u_avatar := g_avatar g\<rparr> else u1);
          u3 = (if \<not> u_isEmailVerified u2 \<and> g_isEmailVerified g
                then u2\<lparr>u_isEmailVerified := g_isEmailVerified g\<rparr> else u2)
      in u3)"

definition googleShouldUpdate :: "googleUser \<Rightarrow> user \<Rightarrow> bool" where
  "googleShouldUpdate g u =
     (unset (u_googleId u) \<or> (unset (u_avatar u) \<and> \<not> unset (g_avatar g)) \<or>
      (\<not> u_isEmailVerified u \<and> g_isEmailVerified g))"

text \<open>
  Modelled from the spec: the defaults of the User schema, which is not among the
  sources. \<^verbatim>\<open>new User({...})\<close> from the Google data gives an account that is active,
  has not logged in yet and has no failed attempts.
\<close>

definition newGoogleUser :: "objectId \<Rightarrow> googleUser \<Rightarrow> user" where
  "newGoogleUser oid g =
     \<lparr>u_id = oid, u_name = g_name g, u_email = g_email g, u_password = None,
      u_googleId = Some (g_googleId g), u_avatar = g_avatar g, u_role = ''user'',
      u_isEmailVerified = g_isEmailVerified g, u_isActive = True, u_lastLogin = None,
      u_loginAttempts = 0, u_lockUntil = None, u_passwordResetToken = None,
      u_passwordResetTokenExpires = None\<rparr>"

text \<open>The last part of \<^verbatim>\<open>googleAuth\<close>, common to both branches.\<close>

definition googleFinish :: "env \<Rightarrow> store \<Rightarrow> int \<Rightarrow> user \<Rightarrow> bool \<Rightarrow> store \<times> response" where
  "googleFinish env st now u isNewUser =
     (if \<not> u_isActive u then (st, Next (HttpError 401 ''Account is deactivated''))
      else
        (case generateTokens (env_jwt env) now u of
           Inl e \<Rightarrow> (st, googleCatch e)
         | Inr toks \<Rightarrow>
             (st, AuthJson 200
                    (if isNewUser then ''Account created and login successful'' else ''Login successful'')
                    (viewOf u) toks (Some isNewUser))))"

text \<open>\<^verbatim>\<open>AuthController.googleAuth\<close>; \<open>token\<close> is the field of the request body.\<close>

definition googleAuth :: "env \<Rightarrow> store \<Rightarrow> int \<Rightarrow> request \<Rightarrow> string \<Rightarrow> store \<times> response" where
  "googleAuth env st now req token =
     (if token = [] then (st, Next (HttpError 400 ''Google token is required''))
      else
        (case env_verifyGoogleToken env token of
           Inl e \<Rightarrow> (st, googleCatch e)
         | Inr g \<Rightarrow>
             (case User_findOne st (\<lambda>u. u_email u = g_email g \<or> u_googleId u = Some (g_googleId g)) of
                Inl e \<Rightarrow> (st, googleCatch e)
              | Inr None \<Rightarrow>
                  (let u = newGoogleUser (env_newObjectId env) g in
                   case User_insert st u of
                     Inl e \<Rightarrow> (st, googleCatch e)
                   | Inr st1 \<Rightarrow>
                       (case logCreate st1 now (u_id u) ''User'' (JStr (u_id u))
                               (JObj [(''name'', JStr (u_name u)), (''email'', JStr (u_email u)),
                                      (''googleId'', JStr (g_googleId g)), (''role'', JStr (u_role u))])
                               (Some req) ''User signed up with Google OAuth'' of
                          (st2, Inl e) \<Rightarrow> (st2, googleCatch e)
                        | (st2, Inr r) \<Rightarrow> googleFinish env st2 now u True))
              | Inr (Some u0) \<Rightarrow>
                  (let u1 = googleBackfill g u0 in
                   case (if googleShouldUpdate g u0 then User_update st u1 else Inr st) of
                     Inl e \<Rightarrow> (st, googleCatch e)
                   | Inr st1 \<Rightarrow>
                       (let u2 = u1\<lparr>u_lastLogin := Some now\<rparr> in
                        case User_update st1 u2 of
                          Inl e \<Rightarrow> (st1, googleCatch e)
                        | Inr st2 \<Rightarrow>
                            (case logRead st2 now (u_id u2) ''User'' (JStr (u_id u2)) (Some req)
                                    ''User signed in with Google OAuth'' of
                               (st3, Inl e) \<Rightarrow> (st3, googleCatch e)
                             | (st3, Inr r) \<Rightarrow> googleFinish env st3 now u2 False))))))"

definition genericResetMessage :: json where
  "genericResetMessage = JObj [(''success'', JBool True),
     (''message'', JStr ''If a user with that email exists, a password reset link has been sent.'')]"

text \<open>\<^verbatim>\<open>AuthController.forgotPassword\<close>; \<open>email\<close> is the field of the request body.\<close>

definition forgotPassword :: "env \<Rightarrow> store \<Rightarrow> int \<Rightarrow> request \<Rightarrow> string \<Rightarrow> store \<times> response" where
  "forgotPassword env st now req email =
     (case User_findOne st (\<lambda>u. u_email u = toLowerCase email) of
        Inl e \<Rightarrow> (st, Next e)
      | Inr None \<Rightarrow> (st, Json 200 genericResetMessage)
      | Inr (Some u) \<Rightarrow>
          if \<not> u_isActive u then (st, Json 200 genericResetMessage)
          else
            (case createPasswordResetToken (env_sha256 env) (env_randomToken env) now u of
               (resetToken, u1) \<Rightarrow>
                 (case User_update st u1 of
                    Inl e \<Rightarrow> (st, Next e)
                  | Inr st1 \<Rightarrow>
                      if env_emailConfigured env then
                        (case env_sendPasswordResetEmail env (u_email u1) resetToken (u_name u1) of
                           Inr ok \<Rightarrow>
                             (case logUpdate st1 now (u_id u1) ''User'' (JStr (u_id u1))
                                     (JObj [(''passwordResetRequested'', JBool False)])
                                     (JObj [(''passwordResetRequested'', JBool True)])
                                     (Some req) ''Password reset requested'' of
                                (st2, Inl e) \<Rightarrow>
                                  (let st3 = consoleError ''Failed to send password reset email:'' st2;
                                       u2 = u1\<lparr>u_passwordResetToken := None,
                                               u_passwordResetTokenExpires := None\<rparr>
                                   in case User_update st3 u2 of
                                        Inl e' \<Rightarrow> (st3, Next e')
                                      | Inr st4 \<Rightarrow> (st4, Next (HttpError 500
                                          ''Failed to send password reset email. Please try again.'')))
                              | (st2, Inr r) \<Rightarrow>
                                  (st2, Json 200 (JObj [(''success'', JBool True),
                                     (''message'', JStr ''Password reset link has been sent to your email.'')])))
                         | Inl emailError \<Rightarrow>
                             (let st3 = consoleError ''Failed to send password reset email:'' st1;
                                  u2 = u1\<lparr>u_passwordResetToken := None,
                                          u_passwordResetTokenExpires := None\<rparr>
                              in case User_update st3 u2 of
                                   Inl e' \<Rightarrow> (st3, Next e')
                                 | Inr st4 \<Rightarrow> (st4, Next (HttpError 500
                                     ''Failed to send password reset email. Please try again.''))))
                      else (st1, Next (HttpError 500 ''Email service is not configured'')))))"

section \<open>Numbers of the query string\<close>

text \<open>
  A JavaScript number as far as the paging code computes with it: an integer or NaN. A
  value of the query string is a number (after the validator has converted it) or a
  string.
\<close>

datatype jsnum = NaN | Num int

datatype qval = QNum int | QStr string

definition hexDigits :: "(char \<times> nat) list" where
  "hexDigits = zip ''0123456789abcdef'' [0..<16] @ zip ''ABCDEF'' [10..<16]"

definition digitVal :: "nat \<Rightarrow> char \<Rightarrow> nat option" where
  "digitVal radix c =
     (case map_of hexDigits c of None \<Rightarrow> None | Some d \<Rightarrow> (if d < radix then Some d else None))"

definition digitsValue :: "nat \<Rightarrow> string \<Rightarrow> nat" where
  "digitsValue radix ds = foldl (\<lambda>acc c. acc * radix + the (digitVal radix c)) 0 ds"

text \<open>The digits \<^verbatim>\<open>parseInt\<close> reads: the longest prefix of digits of the radix.\<close>

definition parseDigits :: "nat \<Rightarrow> string \<Rightarrow> jsnum" where
  "parseDigits radix s =
     (let ds = takeWhile (\<lambda>c. digitVal radix c \<noteq> None) s in
      if ds = [] then NaN else Num (int (digitsValue radix ds)))"

definition negate :: "jsnum \<Rightarrow> jsnum" where
  "negate x = (case x of NaN \<Rightarrow> NaN | Num n \<Rightarrow> Num (- n))"

definition parseUnsigned :: "string \<Rightarrow> jsnum" where
  "parseUnsigned s =
     (if startsWith s ''0x'' \<or> startsWith s ''0X'' then parseDigits 16 (drop 2 s)
      else parseDigits 10 s)"

fun leadDigit :: "nat \<Rightarrow> nat" where
  "leadDigit n = (if n < 10 then n else leadDigit (n div 10))"

text \<open>
  \<^verbatim>\<open>parseInt(v)\<close> with no radix. A string: leading white space, a sign, an optional
  0x, then digits; NaN when there is no digit. A number is converted to its string
  first: an integer below 10^21 reads back as itself, a larger one prints in exponent
  notation, of which \<^verbatim>\<open>parseInt\<close> reads the leading digit.
\<close>

definition parseInt :: "qval \<Rightarrow> jsnum" where
  "parseInt v =
     (case v of
        QNum n \<Rightarrow>
          (if \<bar>n\<bar> < 10 ^ 21 then Num n
           else if n < 0 then Num (- int (leadDigit (nat \<bar>n\<bar>))) else Num (int (leadDigit (nat n))))
      | QStr s \<Rightarrow>
          (case dropWhile isSpace s of
             [] \<Rightarrow> NaN
           | c # cs \<Rightarrow>
               if c = CHR ''-'' then negate (parseUnsigned cs)
               else if c = CHR ''+'' then parseUnsigned cs
               else parseUnsigned (c # cs)))"

text \<open>\<^verbatim>\<open>Math.max\<close> and \<^verbatim>\<open>Math.min\<close>: NaN when an argument is NaN.\<close>

definition mathMax :: "jsnum \<Rightarrow> jsnum \<Rightarrow> jsnum" where
  "mathMax a b = (case (a, b) of (Num x, Num y) \<Rightarrow> Num (max x y) | _ \<Rightarrow> NaN)"

definition mathMin :: "jsnum \<Rightarrow> jsnum \<Rightarrow> jsnum" where
  "mathMin a b = (case (a, b) of (Num x, Num y) \<Rightarrow> Num (min x y) | _ \<Rightarrow> NaN)"

definition inRange :: "int \<Rightarrow> int \<Rightarrow> jsnum \<Rightarrow> bool" where
  "inRange lo hi x = (case x of NaN \<Rightarrow> False | Num n \<Rightarrow> lo \<le> n \<and> n \<le> hi)"

definition atLeast :: "int \<Rightarrow> jsnum \<Rightarrow> bool" where
  "atLeast lo x = (case x of NaN \<Rightarrow> False | Num n \<Rightarrow> lo \<le> n)"

section \<open>Queries on the audit log collection\<close>

text \<open>A user id in a filter: the string of a request, or the ObjectId of a loaded user.\<close>

datatype idval = IdStr string | IdObj objectId

definition idGiven :: "idval option \<Rightarrow> bool" where
  "idGiven v = (case v of None \<Rightarrow> False | Some (IdStr s) \<Rightarrow> s \<noteq> [] | Some (IdObj i) \<Rightarrow> True)"

text \<open>The cast of a filter value to the ObjectId type of the userId path.\<close>

definition castObjectId :: "idval \<Rightarrow> exn + objectId" where
  "castObjectId v =
     (case v of
        IdObj i \<Rightarrow> Inr i
      | IdStr s \<Rightarrow> (if objectIdRegex s then Inr (toLowerCase s)
                     else Inl (CastError ''Cast to ObjectId failed'')))"

text \<open>A filter document: equality on the paths that are given, a range on the timestamp.\<close>

record findQuery =
  fq_entity :: "string option"
  fq_entityId :: "string option"
  fq_action :: "string option"
  fq_userId :: "idval option"
  fq_gte :: "int option"
  fq_lte :: "int option"

definition emptyQuery :: findQuery where
  "emptyQuery = \<lparr>fq_entity = None, fq_entityId = None, fq_action = None, fq_userId = None,
     fq_gte = None, fq_lte = None\<rparr>"

definition eqOpt :: "'a option \<Rightarrow> 'a \<Rightarrow> bool" where
  "eqOpt c v = (case c of None \<Rightarrow> True | Some x \<Rightarrow> v = x)"

definition matches :: "findQuery \<Rightarrow> objectId option \<Rightarrow> auditLog \<Rightarrow> bool" where
  "matches q uid e =
     (eqOpt (fq_entity q) (al_entity e) \<and> eqOpt (fq_entityId q) (al_entityId e) \<and>
      eqOpt (fq_action q) (al_action e) \<and> eqOpt uid (al_userId e) \<and>
      (case fq_gte q of None \<Rightarrow> True | Some t \<Rightarrow> t \<le> al_timestamp e) \<and>
      (case fq_lte q of None \<Rightarrow> True | Some t \<Rightarrow> al_timestamp e \<le> t))"

text \<open>\<^verbatim>\<open>AuditLog.find(query)\<close>: rejects when the database is down or the user id does not cast.\<close>

definition AuditLog_find :: "store \<Rightarrow> findQuery \<Rightarrow> exn + auditLog list" where
  "AuditLog_find st q =
     (if \<not> dbUp st then Inl (MongoError ''database unavailable'')
      else
        (case fq_userId q of
           None \<Rightarrow> Inr (filter (matches q None) (auditLogs st))
         | Some v \<Rightarrow>
             (case castObjectId v of
                Inl e \<Rightarrow> Inl e
              | Inr uid \<Rightarrow> Inr (filter (matches q (Some uid)) (auditLogs st)))))"

definition AuditLog_countDocuments :: "store \<Rightarrow> findQuery \<Rightarrow> exn + nat" where
  "AuditLog_countDocuments st q =
     (case AuditLog_find st q of Inl e \<Rightarrow> Inl e | Inr xs \<Rightarrow> Inr (length xs))"

text \<open>\<^verbatim>\<open>.sort({ timestamp: -1 })\<close>: newest first, entries of one instant in stored order.\<close>

definition sortNewestFirst :: "auditLog list \<Rightarrow> auditLog list" where
  "sortNewestFirst xs = sort_key (\<lambda>e. - al_timestamp e) xs"

text \<open>
  \<^verbatim>\<open>.limit(n)\<close>: zero is no limit, a negative limit counts as its absolute value.
\<close>

definition limitTo :: "int \<Rightarrow> 'a list \<Rightarrow> 'a list" where
  "limitTo n xs = (if n = 0 then xs else take (nat \<bar>n\<bar>) xs)"

text \<open>
  \<^verbatim>\<open>.limit(limit * 1).skip((page - 1) * limit)\<close>: the database rejects a skip or limit
  that is not a number, and a negative skip.
\<close>

definition paginate :: "jsnum \<Rightarrow> jsnum \<Rightarrow> 'a list \<Rightarrow> exn + 'a list" where
  "paginate page limit xs =
     (case (page, limit) of
        (Num p, Num l) \<Rightarrow>
          (if (p - 1) * l < 0 then Inl (MongoError ''skip must be non-negative'')
           else Inr (limitTo l (drop (nat ((p - 1) * l)) xs)))
      | _ \<Rightarrow> Inl (MongoError ''skip and limit must be numbers''))"

text \<open>\<^verbatim>\<open>.populate('userId', 'name email')\<close>: the actor's document, null when there is none.\<close>

record actor =
  a_id :: objectId
  a_name :: string
  a_email :: string

record populatedLog =
  pl_log :: auditLog
  pl_user :: "actor option"

definition populate :: "store \<Rightarrow> auditLog \<Rightarrow> populatedLog" where
  "populate st e =
     \<lparr>pl_log = e,
      pl_user = map_option (\<lambda>u. \<lparr>a_id = u_id u, a_name = u_name u, a_email = u_email u\<rparr>)
                  (find (\<lambda>u. u_id u = al_userId e) (users st))\<rparr>"

text \<open>The options object of the two query methods of the model.\<close>

record queryOptions =
  o_page :: jsnum
  o_limit :: jsnum
  o_action :: "string option"
  o_entity :: "string option"
  o_userId :: "idval option"
  o_startDate :: "int option"
  o_endDate :: "int option"

definition upperIfGiven :: "string option \<Rightarrow> string option" where
  "upperIfGiven a = (if unset a then None else map_option toUpperCase a)"

definition ifGiven :: "string option \<Rightarrow> string option" where
  "ifGiven a = (if unset a then None else a)"

text \<open>\<^verbatim>\<open>auditLogSchema.statics.getEntityLogs\<close>.\<close>

definition AuditLog_getEntityLogs :: "store \<Rightarrow> string \<Rightarrow> string \<Rightarrow> queryOptions \<Rightarrow> exn + populatedLog list" where
  "AuditLog_getEntityLogs st entity entityId opts =
     (let query = \<lparr>fq_entity = Some entity, fq_entityId = Some entityId,
                    fq_action = upperIfGiven (o_action opts),
                    fq_userId = (if idGiven (o_userId opts) then o_userId opts else None),
                    fq_gte = o_startDate opts, fq_lte = o_endDate opts\<rparr>
      in case AuditLog_find st query of
           Inl e \<Rightarrow> Inl e
         | Inr found \<Rightarrow>
             (case paginate (o_page opts) (o_limit opts) (sortNewestFirst found) of
                Inl e \<Rightarrow> Inl e
              | Inr page \<Rightarrow> Inr (map (populate st) page)))"

text \<open>\<^verbatim>\<open>auditLogSchema.statics.getUserActivity\<close>.\<close>

definition AuditLog_getUserActivity :: "store \<Rightarrow> string \<Rightarrow> queryOptions \<Rightarrow> exn + auditLog list" where
  "AuditLog_getUserActivity st userId opts =
     (let query = \<lparr>fq_entity = ifGiven (o_entity opts), fq_entityId = None,
                    fq_action = upperIfGiven (o_action opts),
                    fq_userId = Some (IdStr userId),
                    fq_gte = o_startDate opts, fq_lte = o_endDate opts\<rparr>
      in case AuditLog_find st query of
           Inl e \<Rightarrow> Inl e
         | Inr found \<Rightarrow> paginate (o_page opts) (o_limit opts) (sortNewestFirst found))"

text \<open>The two query methods of the service: an error is logged and answered by no logs.\<close>

definition getEntityLogs :: "store \<Rightarrow> string \<Rightarrow> string \<Rightarrow> queryOptions \<Rightarrow> store \<times> populatedLog list" where
  "getEntityLogs st entity entityId opts =
     (case AuditLog_getEntityLogs st entity entityId opts of
        Inl e \<Rightarrow> (consoleError ''Failed to fetch entity audit logs:'' st, [])
      | Inr logs \<Rightarrow> (st, logs))"

definition getUserActivityLogs :: "store \<Rightarrow> string \<Rightarrow> queryOptions \<Rightarrow> store \<times> auditLog list" where
  "getUserActivityLogs st userId opts =
     (case AuditLog_getUserActivity st userId opts of
        Inl e \<Rightarrow> (consoleError ''Failed to fetch user activity logs:'' st, [])
      | Inr logs \<Rightarrow> (st, logs))"

section \<open>The audit controller\<close>

text \<open>
  The query string of the three list endpoints, as the client sends it, and as the
  validator hands it to the controller: page and limit converted to numbers, the dates
  to instants.
\<close>

record rawQuery =
  r_page :: "string option"
  r_limit :: "string option"
  r_action :: "string option"
  r_entity :: "string option"
  r_entityId :: "string option"
  r_userId :: "string option"
  r_startDate :: "string option"
  r_endDate :: "string option"

record filters =
  f_action :: "string option"
  f_entity :: "string option"
  f_entityId :: "string option"
  f_userId :: "string option"
  f_startDate :: "int option"
  f_endDate :: "int option"

record auditQuery =
  q_page :: "qval option"
  q_limit :: "qval option"
  q_filters :: filters

text \<open>
  The rule \<^verbatim>\<open>Joi.number().integer().min(1).default(1)\<close> of the auditQuery schema.
  \<open>toInteger\<close> is the validator's conversion of a string to a safe integer, \<open>None\<close>
  when the string is not one. The result is \<open>None\<close> on a validation error.
\<close>

definition validatePage :: "(string \<Rightarrow> int option) \<Rightarrow> string option \<Rightarrow> qval option" where
  "validatePage toInteger raw =
     (case raw of
        None \<Rightarrow> Some (QNum 1)
      | Some s \<Rightarrow>
          (case toInteger s of
             None \<Rightarrow> None
           | Some n \<Rightarrow> (if n < 1 then None else Some (QNum n))))"

text \<open>The rule \<^verbatim>\<open>Joi.number().integer().min(1).max(100).default(20)\<close>.\<close>

definition validateLimit :: "(string \<Rightarrow> int option) \<Rightarrow> string option \<Rightarrow> qval option" where
  "validateLimit toInteger raw =
     (case raw of
        None \<Rightarrow> Some (QNum 20)
      | Some s \<Rightarrow>
          (case toInteger s of
             None \<Rightarrow> None
           | Some n \<Rightarrow> (if n < 1 \<or> 100 < n then None else Some (QNum n))))"

text \<open>
  \<^verbatim>\<open>validators.validateAuditQuery\<close>, the middleware in front of the three list
  controllers: any violated rule answers 400, otherwise the request's query is replaced
  by the validated value. \<open>rest\<close> stands for the rules of the other keys (action,
  entity, entityId, userId and the two dates) with the validator's conversions.
\<close>

definition validateAuditQuery :: "(string \<Rightarrow> int option) \<Rightarrow> (rawQuery \<Rightarrow> filters option) \<Rightarrow>
    rawQuery \<Rightarrow> exn + auditQuery" where
  "validateAuditQuery toInteger rest raw =
     (case (validatePage toInteger (r_page raw), validateLimit toInteger (r_limit raw), rest raw) of
        (Some p, Some l, Some f) \<Rightarrow> Inr \<lparr>q_page = Some p, q_limit = Some l, q_filters = f\<rparr>
      | _ \<Rightarrow> Inl (HttpError 400 ''Validation failed''))"

text \<open>
  The two lines every list controller starts with, after the defaults of the
  destructuring: \<^verbatim>\<open>Math.max(1, parseInt(page))\<close> and
  \<^verbatim>\<open>Math.min(100, Math.max(1, parseInt(limit)))\<close>.
\<close>

definition pageNum :: "auditQuery \<Rightarrow> jsnum" where
  "pageNum q = mathMax (Num 1) (parseInt (case q_page q of None \<Rightarrow> QNum 1 | Some v \<Rightarrow> v))"

definition limitNum :: "auditQuery \<Rightarrow> jsnum" where
  "limitNum q =
     mathMin (Num 100) (mathMax (Num 1) (parseInt (case q_limit q of None \<Rightarrow> QNum 20 | Some v \<Rightarrow> v)))"

record pagination =
  currentPage :: jsnum
  totalPages :: jsnum
  totalItems :: nat
  itemsPerPage :: jsnum
  hasNextPage :: bool
  hasPrevPage :: bool

datatype auditResponse =
    AuditLogs "populatedLog list" pagination
  | EntityAuditLogs string string "populatedLog list"
  | UserActivity string "auditLog list"
  | CsvFile string
  | JsonFile "populatedLog list" nat
  | NextA exn

text \<open>
  \<^verbatim>\<open>Math.ceil(totalCount / limitNum)\<close>. The divisor is NaN or at least 1 where the
  controller calls it; a zero divisor, which would give Infinity, is answered NaN here.
\<close>

definition ceilDiv :: "nat \<Rightarrow> jsnum \<Rightarrow> jsnum" where
  "ceilDiv n d =
     (case d of
        NaN \<Rightarrow> NaN
      | Num l \<Rightarrow> (if l = 0 then NaN else Num (- ((- int n) div l))))"

definition jsLess :: "jsnum \<Rightarrow> jsnum \<Rightarrow> bool" where
  "jsLess a b = (case (a, b) of (Num x, Num y) \<Rightarrow> x < y | _ \<Rightarrow> False)"

text \<open>The filter \<^verbatim>\<open>getAuditLogs\<close> builds, with the caller's own id forced for a non-admin.\<close>

definition getAuditLogs_query :: "user \<Rightarrow> auditQuery \<Rightarrow> findQuery" where
  "getAuditLogs_query caller q =
     (let f = q_filters q;
          query = \<lparr>fq_entity = ifGiven (f_entity f), fq_entityId = ifGiven (f_entityId f),
                    fq_action = upperIfGiven (f_action f),
                    fq_userId = (if unset (f_userId f) then None else map_option IdStr (f_userId f)),
                    fq_gte = f_startDate f, fq_lte = f_endDate f\<rparr>
      in if u_role caller \<noteq> ''admin'' then query\<lparr>fq_userId := Some (IdObj (u_id caller))\<rparr>
         else query)"

text \<open>
  The options \<^verbatim>\<open>getAuditLogs\<close> passes on: \<^verbatim>\<open>{ page, limit, ...query }\<close>. The model's
  method reads page, limit, action and userId of them; the timestamp key of the filter
  is none of its options.
\<close>

definition getAuditLogs_options :: "user \<Rightarrow> auditQuery \<Rightarrow> queryOptions" where
  "getAuditLogs_options caller q =
     (let query = getAuditLogs_query caller q in
      \<lparr>o_page = pageNum q, o_limit = limitNum q, o_action = fq_action query,
       o_entity = fq_entity query, o_userId = fq_userId query,
       o_startDate = None, o_endDate = None\<rparr>)"

text \<open>\<^verbatim>\<open>AuditController.getAuditLogs\<close>.\<close>

definition getAuditLogs :: "store \<Rightarrow> user \<Rightarrow> auditQuery \<Rightarrow> store \<times> auditResponse" where
  "getAuditLogs st caller q =
     (case getEntityLogs st [] [] (getAuditLogs_options caller q) of
        (st1, logs) \<Rightarrow>
          (case AuditLog_countDocuments st1 (getAuditLogs_query caller q) of
             Inl e \<Rightarrow> (st1, NextA e)
           | Inr totalCount \<Rightarrow>
               (let pages = ceilDiv totalCount (limitNum q) in
                (st1, AuditLogs logs
                   \<lparr>currentPage = pageNum q, totalPages = pages, totalItems = totalCount,
                    itemsPerPage = limitNum q, hasNextPage = jsLess (pageNum q) pages,
                    hasPrevPage = jsLess (Num 1) (pageNum q)\<rparr>))))"

text \<open>The options \<^verbatim>\<open>getEntityAuditLogs\<close> builds, or the error it answers with.\<close>

definition getEntityAuditLogs_options :: "user \<Rightarrow> string \<Rightarrow> string \<Rightarrow> auditQuery \<Rightarrow> exn + queryOptions" where
  "getEntityAuditLogs_options caller entity entityId q =
     (if entity = [] \<or> entityId = [] then Inl (HttpError 400 ''Entity and entityId are required'')
      else
        (let f = q_filters q;
             options = \<lparr>o_page = pageNum q, o_limit = limitNum q,
                         o_action = upperIfGiven (f_action f), o_entity = None, o_userId = None,
                         o_startDate = f_startDate f, o_endDate = f_endDate f\<rparr>
         in if u_role caller \<noteq> ''admin'' then
              (if entity = ''User'' \<and> entityId \<noteq> u_id caller
               then Inl (HttpError 403 ''Access denied. You can only view your own audit logs.'')
               else Inr (options\<lparr>o_userId := Some (IdObj (u_id caller))\<rparr>))
            else Inr options))"

text \<open>\<^verbatim>\<open>AuditController.getEntityAuditLogs\<close>.\<close>

definition getEntityAuditLogs :: "store \<Rightarrow> user \<Rightarrow> string \<Rightarrow> string \<Rightarrow> auditQuery \<Rightarrow>
    store \<times> auditResponse" where
  "getEntityAuditLogs st caller entity entityId q =
     (case getEntityAuditLogs_options caller entity entityId q of
        Inl e \<Rightarrow> (st, NextA e)
      | Inr options \<Rightarrow>
          (case getEntityLogs st entity entityId options of
             (st1, logs) \<Rightarrow> (st1, EntityAuditLogs entity entityId logs)))"

text \<open>The options \<^verbatim>\<open>getUserActivity\<close> builds, or the error it answers with.\<close>

definition getUserActivity_options :: "user \<Rightarrow> string \<Rightarrow> auditQuery \<Rightarrow> exn + queryOptions" where
  "getUserActivity_options caller userId q =
     (if u_role caller \<noteq> ''admin'' \<and> userId \<noteq> u_id caller
      then Inl (HttpError 403 ''Access denied. You can only view your own activity.'')
      else
        (let f = q_filters q in
         Inr \<lparr>o_page = pageNum q, o_limit = limitNum q,
              o_action = upperIfGiven (f_action f), o_entity = ifGiven (f_entity f),
              o_userId = None, o_startDate = f_startDate f, o_endDate = f_endDate f\<rparr>))"

text \<open>\<^verbatim>\<open>AuditController.getUserActivity\<close>.\<close>

definition getUserActivity :: "store \<Rightarrow> user \<Rightarrow> string \<Rightarrow> auditQuery \<Rightarrow> store \<times> auditResponse" where
  "getUserActivity st caller userId q =
     (case getUserActivity_options caller userId q of
        Inl e \<Rightarrow> (st, NextA e)
      | Inr options \<Rightarrow>
          (case getUserActivityLogs st userId options of
             (st1, logs) \<Rightarrow> (st1, UserActivity userId logs)))"

text \<open>The query string of the export endpoint, after its validator.\<close>

record exportQuery =
  x_format :: "string option"
  x_filters :: filters

definition exportLimit :: nat where
  "exportLimit = 10000"

text \<open>
  The query of \<^verbatim>\<open>exportAuditLogs\<close>: the filter, newest first, at most 10000 documents,
  each with its actor. The entity id is no key of the export filter.
\<close>

definition exportAuditLogs_find :: "store \<Rightarrow> exportQuery \<Rightarrow> exn + populatedLog list" where
  "exportAuditLogs_find st x =
     (let f = x_filters x;
          query = \<lparr>fq_entity = ifGiven (f_entity f), fq_entityId = None,
                    fq_action = upperIfGiven (f_action f),
                    fq_userId = (if unset (f_userId f) then None else map_option IdStr (f_userId f)),
                    fq_gte = f_startDate f, fq_lte = f_endDate f\<rparr>
      in case AuditLog_find st query of
           Inl e \<Rightarrow> Inl e
         | Inr found \<Rightarrow> Inr (map (populate st) (limitTo (int exportLimit) (sortNewestFirst found))))"

definition csvHeaders :: "string list" where
  "csvHeaders = [''ID'', ''User ID'', ''User Name'', ''User Email'', ''Action'', ''Entity'',
     ''Entity ID'', ''Timestamp'', ''Description'', ''IP Address'', ''User Agent'', ''Route'',
     ''Method'', ''Status Code'']"

text \<open>
  The rows of \<^verbatim>\<open>convertToCSV\<close>: the header row, then one row for each log. \<open>row\<close>
  gives the fourteen fields of a log as the template prints them.
\<close>

definition csvRows :: "(populatedLog \<Rightarrow> string list) \<Rightarrow> populatedLog list \<Rightarrow> string list" where
  "csvRows row logs = joinWith '','' csvHeaders # map (\<lambda>l. joinWith '','' (row l)) logs"

definition convertToCSV :: "(populatedLog \<Rightarrow> string list) \<Rightarrow> populatedLog list \<Rightarrow> string" where
  "convertToCSV row logs =
     (if logs = [] then ''No data available'' else joinWith [CHR 0x0A] (csvRows row logs))"

text \<open>\<^verbatim>\<open>AuditController.exportAuditLogs\<close>; the format defaults to json.\<close>

definition exportAuditLogs :: "(populatedLog \<Rightarrow> string list) \<Rightarrow> store \<Rightarrow> exportQuery \<Rightarrow> auditResponse" where
  "exportAuditLogs row st x =
     (case exportAuditLogs_find st x of
        Inl e \<Rightarrow> NextA e
      | Inr logs \<Rightarrow>
          if x_format x = Some ''csv'' then CsvFile (convertToCSV row logs)
          else JsonFile logs (length logs))"

section \<open>Scenarios and sample data\<close>

definition aliceId :: objectId where
  "aliceId = ''64f7a1b2c3d4e5f601234567''"

definition bobId :: objectId where
  "bobId = ''64f7a1b2c3d4e5f6089abcde''"

definition alice :: user where
  "alice = \<lparr>u_id = aliceId, u_name = ''Alice'', u_email = ''alice@example.com'',
     u_password = Some ''hash:Password123'', u_googleId = None, u_avatar = None,
     u_role = ''user'', u_isEmailVerified = False, u_isActive = True, u_lastLogin = None,
     u_loginAttempts = 0, u_lockUntil = None, u_passwordResetToken = None,
     u_passwordResetTokenExpires = None\<rparr>"

definition emptyStore :: store where
  "emptyStore = \<lparr>users = [], auditLogs = [], dbUp = True, console = []\<rparr>"

definition postUsers :: request where
  "postUsers = \<lparr>req_user = Some alice, req_method = ''POST'', req_path = ''/api/users'',
     req_body = JObj [(''name'', JStr ''Carol'')], req_originalData = JUndefined,
     req_ip = Some ''10.0.0.1'', req_connectionRemoteAddress = None,
     req_socketRemoteAddress = None, req_userAgent = Some ''curl'', req_routePath = None,
     req_requestId = Some ''r1''\<rparr>"



definition sampleJwt :: jwtService where
  "sampleJwt = \<lparr>js_secret = ''s3cret'', js_expiresIn = ''7d'', js_expiresInMs = Some 604800000,
     js_refreshSecret = ''r3fresh'', js_refreshExpiresIn = ''30d'',
     js_refreshExpiresInMs = Some 2592000000, js_issuer = ''BE Image Builder''\<rparr>"

definition sampleEnv :: env where
  "sampleEnv = \<lparr>env_jwt = sampleJwt, env_bcryptCompare = (\<lambda>candidate h. h = ''hash:'' @ candidate),
     env_sha256 = (\<lambda>s. ''sha256:'' @ s), env_randomToken = ''0123abcd'',
     env_newObjectId = ''64f7a1b2c3d4e5f6ffffffff'', env_emailConfigured = True,
     env_sendPasswordResetEmail = (\<lambda>email tok name. Inr ()),
     env_verifyGoogleToken = (\<lambda>tok. if tok = ''valid-google-token''
        then Inr \<lparr>g_googleId = ''g-1'', g_email = ''alice@example.com'', g_name = ''Alice'',
                  g_avatar = Some ''http://a/b.png'', g_isEmailVerified = True\<rparr>
        else Inl (Error ''Google token verification failed: bad token''))\<rparr>"

text \<open>The service configured with the lifetime 500ms.\<close>

definition shortLivedJwt :: jwtService where
  "shortLivedJwt = sampleJwt\<lparr>js_expiresIn := ''500ms'', js_expiresInMs := Some 500\<rparr>"

definition alicePayload :: json where
  "alicePayload = JObj [(''id'', JStr aliceId), (''email'', JStr ''alice@example.com''),
     (''role'', JStr ''user'')]"

definition publicPost :: request where
  "publicPost = \<lparr>req_user = None, req_method = ''POST'', req_path = ''/api/auth/forgot-password'',
     req_body = JObj [], req_originalData = JUndefined,
     req_ip = Some ''10.0.0.1'', req_connectionRemoteAddress = None,
     req_socketRemoteAddress = None, req_userAgent = Some ''curl'', req_routePath = None,
     req_requestId = Some ''r3''\<rparr>"

definition failedSignins :: "env \<Rightarrow> store \<Rightarrow> request \<Rightarrow> string \<Rightarrow> string \<Rightarrow> int list \<Rightarrow> store" where
  "failedSignins env st req email password ts =
     foldl (\<lambda>s t. fst (signin env s t req email password)) st ts"

definition lockedMessage :: string where
  "lockedMessage = ''Account is temporarily locked due to multiple failed login attempts''"

definition inactiveAlice :: user where
  "inactiveAlice = alice\<lparr>u_isActive := False\<rparr>"

definition sampleGoogleUser :: googleUser where
  "sampleGoogleUser = \<lparr>g_googleId = ''g-1'', g_email = ''alice@example.com'', g_name = ''Alice'',
     g_avatar = Some ''http://a/b.png'', g_isEmailVerified = True\<rparr>"

definition aliceStore :: store where
  "aliceStore = emptyStore\<lparr>users := [alice]\<rparr>"

definition lockedAliceStore :: store where
  "lockedAliceStore = emptyStore\<lparr>users := [alice\<lparr>u_lockUntil := Some 9000\<rparr>]\<rparr>"

definition sampleToInteger :: "string \<Rightarrow> int option" where
  "sampleToInteger s =
     (if s \<noteq> [] \<and> list_all (\<lambda>c. digitVal 10 c \<noteq> None) s then Some (int (digitsValue 10 s)) else None)"

definition noFilters :: filters where
  "noFilters = \<lparr>f_action = None, f_entity = None, f_entityId = None, f_userId = None,
     f_startDate = None, f_endDate = None\<rparr>"

definition sampleRaw :: rawQuery where
  "sampleRaw = \<lparr>r_page = Some ''7'', r_limit = Some ''50'', r_action = None, r_entity = None,
     r_entityId = None, r_userId = None, r_startDate = None, r_endDate = None\<rparr>"

definition bob :: user where
  "bob = alice\<lparr>u_id := bobId, u_name := ''Bob'', u_email := ''bob@example.com''\<rparr>"

definition blankEntry :: "objectId \<Rightarrow> int \<Rightarrow> auditLog" where
  "blankEntry uid t = \<lparr>al_userId = uid, al_action = ''READ'', al_entity = [], al_entityId = [],
     al_before = JNull, al_after = JNull, al_metadata = noMetadata, al_timestamp = t,
     al_description = []\<rparr>"

definition mixedStore :: store where
  "mixedStore = \<lparr>users = [alice, bob],
     auditLogs = [blankEntry aliceId 1, blankEntry bobId 2, blankEntry aliceId 3],
     dbUp = True, console = []\<rparr>"

definition bobsLogsQuery :: auditQuery where
  "bobsLogsQuery = \<lparr>q_page = Some (QNum 1), q_limit = Some (QNum 20),
     q_filters = noFilters\<lparr>f_userId := Some bobId\<rparr>\<rparr>"

definition bigStore :: store where
  "bigStore = \<lparr>users = [alice], auditLogs = replicate 10001 (blankEntry aliceId 1),
     dbUp = True, console = []\<rparr>"

definition jsonExport :: exportQuery where
  "jsonExport = \<lparr>x_format = None, x_filters = noFilters\<rparr>"

definition sampleRow :: "populatedLog \<Rightarrow> string list" where
  "sampleRow l = [al_userId (pl_log l), al_action (pl_log l), al_entity (pl_log l)]"

section \<open>Properties of the audit recording service\<close>

lemma AuditLog_createLog_cases:
  "(\<exists>e. AuditLog_createLog st now p = (st\<lparr>auditLogs := auditLogs st @ [stored e]\<rparr>, Inr (Some e)) \<and>
        al_before e = mixedDefault (c_before (p_changes p)) \<and>
        al_after e = mixedDefault (c_after (p_changes p))) \<or>
   AuditLog_createLog st now p = (consoleError ''Failed to create audit log:'' st, Inr None)"
  by (auto simp: AuditLog_createLog_def AuditLog_createLog_body_def saveAuditLog_def
        newAuditLog_def split: sum.splits prod.splits if_splits option.splits)

lemma createLog_eq_model: "createLog st now p = AuditLog_createLog st now p"
  using AuditLog_createLog_cases [of st now p]
  by (auto simp: createLog_def)

text \<open>
  C6. Appending an audit entry never rejects: both \<^verbatim>\<open>AuditLog.createLog\<close> and
  \<^verbatim>\<open>AuditLogService.createLog\<close> return a value, which is either the entry that was
  appended to the collection (in its written form) or null; in the latter case the
  collection is unchanged and the failure is written to the console. So do the four
  operations built on it.
\<close>

theorem createLog_absorbs_failures:
  "(\<exists>st' r. createLog st now p = (st', Inr r) \<and> AuditLog_createLog st now p = (st', Inr r) \<and>
     (case r of
        Some e \<Rightarrow> auditLogs st' = auditLogs st @ [stored e] \<and> console st' = console st
      | None \<Rightarrow> auditLogs st' = auditLogs st \<and>
                console st' = console st @ [''Failed to create audit log:''])) \<and>
   (\<exists>r. snd (logCreate st now uid ent eid dat req descr) = Inr r) \<and>
   (\<exists>r. snd (logRead st now uid ent eid req descr) = Inr r) \<and>
   (\<exists>r. snd (logUpdate st now uid ent eid before after req descr) = Inr r) \<and>
   (\<exists>r. snd (logDelete st now uid ent eid dat req descr) = Inr r)"
proof -
  have c: "\<exists>r. snd (createLog st now q) = Inr r" for q
    using AuditLog_createLog_cases [of st now q] by (auto simp: createLog_eq_model)
  have "\<exists>st' r. createLog st now p = (st', Inr r) \<and> AuditLog_createLog st now p = (st', Inr r) \<and>
     (case r of
        Some e \<Rightarrow> auditLogs st' = auditLogs st @ [stored e] \<and> console st' = console st
      | None \<Rightarrow> auditLogs st' = auditLogs st \<and>
                console st' = console st @ [''Failed to create audit log:''])"
    using AuditLog_createLog_cases [of st now p]
    by (auto simp: createLog_eq_model consoleError_def)
  then show ?thesis
    using c by (simp add: logCreate_def logRead_def logUpdate_def logDelete_def)
qed

theorem createLog_absorbs_failures_witness:
  "createLog (emptyStore\<lparr>dbUp := False\<rparr>) 0
     \<lparr>p_userId = aliceId, p_action = JStr ''READ'', p_entity = JStr ''User'', p_entityId = JStr aliceId,
      p_changes = noChanges, p_metadata = noMetadata, p_description = JStr ''x''\<rparr>
   = (emptyStore\<lparr>dbUp := False, console := [''Failed to create audit log:'']\<rparr>, Inr None)"
proof -
  have "createLog (emptyStore\<lparr>dbUp := False\<rparr>) 0
     \<lparr>p_userId = aliceId, p_action = JStr ''READ'', p_entity = JStr ''User'', p_entityId = JStr aliceId,
      p_changes = noChanges, p_metadata = noMetadata, p_description = JStr ''x''\<rparr>
   = (emptyStore\<lparr>dbUp := False, console := [''Failed to create audit log:'']\<rparr>, Inr None)"
    by code_simp
  with createLog_absorbs_failures [where st = "emptyStore\<lparr>dbUp := False\<rparr>" and now = 0 and
     p = "\<lparr>p_userId = aliceId, p_action = JStr ''READ'', p_entity = JStr ''User'', p_entityId = JStr aliceId,
      p_changes = noChanges, p_metadata = noMetadata, p_description = JStr ''x''\<rparr>", THEN conjunct1]
  show ?thesis by simp
qed

section \<open>Properties of the interceptor\<close>



























text \<open>
  The lookups of the interceptor read inherited properties too: a path that names one
  is not given the capitalised segment as its entity. Under /api/__proto__ the entity
  is the prototype object, which does not cast to a string, so nothing is written;
  under /api/constructor it is a function, written as its source text.
\<close>

lemma inherited_entity_names:
  "extractEntityFromPath ''/api/__proto__'' = JObj objectPrototype \<and>
   auditLogs (logRequest emptyStore 0 (postUsers\<lparr>req_path := ''/api/__proto__''\<rparr>) JNull 201) = [] \<and>
   extractEntityFromPath ''/api/constructor'' = JFunction ''Object'' \<and>
   map al_entity (auditLogs (logRequest emptyStore 0 (postUsers\<lparr>req_path := ''/api/constructor''\<rparr>) JNull 201))
     = [''function Object() { [native code] }'']"
  by code_simp





section \<open>Properties of the token service and the authentication controller\<close>






text \<open>
  The lifetime matters to the round trip: the expiry second of a token is its issue
  second plus the whole seconds of the lifetime, so with a lifetime under one second
  a token is expired when it is issued.
\<close>

lemma short_lifetime_expires_at_once:
  "(case generateAccessToken shortLivedJwt 5000 alicePayload of
      Inl e \<Rightarrow> None
    | Inr t \<Rightarrow> Some (verifyAccessToken shortLivedJwt 5000 (Token t)))
   = Some (Inl (Error ''Access token has expired''))"
  by code_simp




text \<open>
  C1 fails on the code. With the mail transport configured and delivering, the body
  returned for an address without an account and the body returned for the address of
  an active account differ in their message.
\<close>

theorem forgotPassword_reveals_account:
  "snd (forgotPassword sampleEnv (emptyStore\<lparr>users := [alice]\<rparr>) 0 publicPost ''nobody@example.com'')
     = Json 200 (JObj [(''success'', JBool True),
         (''message'', JStr ''If a user with that email exists, a password reset link has been sent.'')]) \<and>
   snd (forgotPassword sampleEnv (emptyStore\<lparr>users := [alice]\<rparr>) 0 publicPost ''alice@example.com'')
     = Json 200 (JObj [(''success'', JBool True),
         (''message'', JStr ''Password reset link has been sent to your email.'')]) \<and>
   snd (forgotPassword sampleEnv (emptyStore\<lparr>users := [alice]\<rparr>) 0 publicPost ''nobody@example.com'')
     \<noteq> snd (forgotPassword sampleEnv (emptyStore\<lparr>users := [alice]\<rparr>) 0 publicPost ''alice@example.com'')"
  by code_simp

lemma find_after_update:
  "find P xs = Some u \<Longrightarrow> P u' \<Longrightarrow> u_id u' = u_id u \<Longrightarrow>
     find P (map (\<lambda>x. if u_id x = u_id u' then u' else x) xs) = Some u'"
  by (induction xs) (auto split: if_splits)

lemma map_update_twice:
  "u_id u1 = u_id u2 \<Longrightarrow>
     map (\<lambda>x. if u_id x = u_id u2 then u2 else x) (map (\<lambda>x. if u_id x = u_id u1 then u1 else x) xs)
       = map (\<lambda>x. if u_id x = u_id u2 then u2 else x) xs"
  by (induction xs) auto

lemma googleBackfill_keeps:
  "u_id (googleBackfill g u) = u_id u" "u_isActive (googleBackfill g u) = u_isActive u"
  by (simp_all add: googleBackfill_def Let_def)

lemma googleBackfill_idle: "\<not> googleShouldUpdate g u \<Longrightarrow> googleBackfill g u = u"
  by (auto simp: googleBackfill_def googleShouldUpdate_def Let_def)

lemma objectId_nonempty: "objectIdRegex s \<Longrightarrow> s \<noteq> []"
  by (auto simp: objectIdRegex_def)

lemma logRead_User_ok:
  assumes "dbUp st" "objectIdRegex uid" "req_method req \<in> set methodEnum"
  shows "\<exists>e. logRead st now uid ''User'' (JStr uid) (Some req) ''User signed in with Google OAuth''
            = (st\<lparr>auditLogs := auditLogs st @ [e]\<rparr>, Inr (Some e)) \<and>
           al_action e = ''READ'' \<and> al_userId e = uid \<and> al_entity e = ''User'' \<and>
           al_entityId e = uid \<and> al_description e = ''User signed in with Google OAuth''"
proof -
  have t1: "trim ''User'' = ''User''" by code_simp
  have t2: "trim ''User signed in with Google OAuth'' = ''User signed in with Google OAuth''"
    by code_simp
  have t3: "toUpperCase ''READ'' = ''READ''" by code_simp
  have m: "toUpperCase (req_method req) = req_method req"
    using assms(3)
    by (auto simp: methodEnum_def toUpperCase_def upperChar_def lowerAlpha_def upperAlpha_def)
  show ?thesis
    using assms objectId_nonempty [OF assms(2)] m
    by (simp add: logRead_def createLog_eq_model AuditLog_createLog_def AuditLog_createLog_body_def
          toUpperCaseCall_def toStringCall_def newAuditLog_def castString_def saveAuditLog_def
          validAuditLog_def stored_def mixedDefault_def noChanges_def
          reqMetadata_def extractMetadata_def describeOr_def t1 t2 t3 actionEnum_def Let_def)
qed

text \<open>
  C9. A valid Google identity token for an existing account whose active flag is false
  is answered with 401 Account is deactivated, after the account has been written back
  with the missing Google fields filled in and lastLogin set to now, and after a READ
  audit entry for the sign-in has been appended.
\<close>

theorem googleAuth_deactivated_updates_account:
  assumes tok: "token \<noteq> []" "env_verifyGoogleToken env token = Inr g"
    and up: "dbUp st"
    and found: "find (\<lambda>u. u_email u = g_email g \<or> u_googleId u = Some (g_googleId g)) (users st) = Some u"
    and inactive: "\<not> u_isActive u"
    and wf: "objectIdRegex (u_id u)" "req_method req \<in> set methodEnum"
  shows "\<exists>e. googleAuth env st now req token =
            (st\<lparr>users := map (\<lambda>x. if u_id x = u_id u
                                   then (googleBackfill g u)\<lparr>u_lastLogin := Some now\<rparr> else x) (users st),
                auditLogs := auditLogs st @ [e]\<rparr>,
             Next (HttpError 401 ''Account is deactivated'')) \<and>
           al_action e = ''READ'' \<and> al_userId e = u_id u \<and> al_entity e = ''User'' \<and>
           al_entityId e = u_id u \<and> al_description e = ''User signed in with Google OAuth''"
proof -
  let ?u1 = "googleBackfill g u"
  let ?u2 = "?u1\<lparr>u_lastLogin := Some now\<rparr>"
  let ?st2 = "st\<lparr>users := map (\<lambda>x. if u_id x = u_id u then ?u2 else x) (users st)\<rparr>"
  have s1: "(case (if googleShouldUpdate g u then User_update st ?u1 else Inr st) of
               Inl e \<Rightarrow> a e | Inr st1 \<Rightarrow> (case User_update st1 ?u2 of Inl e \<Rightarrow> b st1 e | Inr st2 \<Rightarrow> c st2))
            = c ?st2" for a b c
  proof -
    have "(\<lambda>x. if u_id x = u_id u then ?u2 else x) \<circ> (\<lambda>x. if u_id x = u_id u then ?u1 else x)
            = (\<lambda>x. if u_id x = u_id u then ?u2 else x)"
      by (auto simp: fun_eq_iff googleBackfill_keeps)
    then show ?thesis
      using up by (simp add: User_update_def googleBackfill_keeps)
  qed
  have up2: "dbUp ?st2" using up by simp
  from logRead_User_ok [OF up2 wf, of now] obtain e where
    e: "logRead ?st2 now (u_id u) ''User'' (JStr (u_id u)) (Some req) ''User signed in with Google OAuth''
          = (?st2\<lparr>auditLogs := auditLogs ?st2 @ [e]\<rparr>, Inr (Some e))"
       "al_action e = ''READ''" "al_userId e = u_id u" "al_entity e = ''User''"
       "al_entityId e = u_id u" "al_description e = ''User signed in with Google OAuth''"
    by blast
  have "googleAuth env st now req token =
          (?st2\<lparr>auditLogs := auditLogs ?st2 @ [e]\<rparr>, Next (HttpError 401 ''Account is deactivated''))"
    unfolding googleAuth_def Let_def
    using tok up found inactive e(1)
    by (simp add: User_findOne_def s1 googleBackfill_keeps googleFinish_def)
  then show ?thesis using e(2-6) by (intro exI [of _ e]) simp
qed

theorem googleAuth_deactivated_updates_account_witness:
  "''valid-google-token'' \<noteq> [] \<and>
   env_verifyGoogleToken sampleEnv ''valid-google-token'' = Inr sampleGoogleUser \<and>
   dbUp (emptyStore\<lparr>users := [inactiveAlice]\<rparr>) \<and>
   find (\<lambda>u. u_email u = g_email sampleGoogleUser \<or> u_googleId u = Some (g_googleId sampleGoogleUser))
     (users (emptyStore\<lparr>users := [inactiveAlice]\<rparr>)) = Some inactiveAlice \<and>
   \<not> u_isActive inactiveAlice \<and> objectIdRegex (u_id inactiveAlice) \<and>
   req_method publicPost \<in> set methodEnum \<and>
   u_lastLogin inactiveAlice = None \<and> u_googleId inactiveAlice = None \<and>
   (\<exists>e. googleAuth sampleEnv (emptyStore\<lparr>users := [inactiveAlice]\<rparr>) 1000 publicPost ''valid-google-token'' =
      (emptyStore\<lparr>users := [inactiveAlice\<lparr>u_googleId := Some ''g-1'', u_avatar := Some ''http://a/b.png'',
                                  u_isEmailVerified := True, u_lastLogin := Some 1000\<rparr>],
                 auditLogs := [e]\<rparr>,
       Next (HttpError 401 ''Account is deactivated'')) \<and>
      al_action e = ''READ'' \<and> al_userId e = u_id inactiveAlice)"
proof -
  let ?st = "emptyStore\<lparr>users := [inactiveAlice]\<rparr>"
  have h1: "''valid-google-token'' \<noteq> []" by simp
  have h2: "env_verifyGoogleToken sampleEnv ''valid-google-token'' = Inr sampleGoogleUser"
    by (simp add: sampleEnv_def sampleGoogleUser_def)
  have h3: "dbUp ?st" by (simp add: emptyStore_def)
  have h4: "find (\<lambda>u. u_email u = g_email sampleGoogleUser \<or> u_googleId u = Some (g_googleId sampleGoogleUser))
     (users ?st) = Some inactiveAlice"
    by (simp add: emptyStore_def inactiveAlice_def alice_def sampleGoogleUser_def)
  have h5: "\<not> u_isActive inactiveAlice" by (simp add: inactiveAlice_def)
  have h6: "objectIdRegex (u_id inactiveAlice)" by code_simp
  have h7: "req_method publicPost \<in> set methodEnum" by code_simp
  have h8: "u_lastLogin inactiveAlice = None" "u_googleId inactiveAlice = None"
    by (simp_all add: inactiveAlice_def alice_def)
  have bf: "(googleBackfill sampleGoogleUser inactiveAlice)\<lparr>u_lastLogin := Some 1000\<rparr>
      = inactiveAlice\<lparr>u_googleId := Some ''g-1'', u_avatar := Some ''http://a/b.png'',
                                  u_isEmailVerified := True, u_lastLogin := Some 1000\<rparr>"
    by (simp add: googleBackfill_def Let_def unset_def inactiveAlice_def alice_def sampleGoogleUser_def)
  from googleAuth_deactivated_updates_account [OF h1 h2 h3 h4 h5 h6 h7, of 1000] obtain e where
    "googleAuth sampleEnv ?st 1000 publicPost ''valid-google-token'' =
            (?st\<lparr>users := map (\<lambda>x. if u_id x = u_id inactiveAlice
                                   then (googleBackfill sampleGoogleUser inactiveAlice)\<lparr>u_lastLogin := Some 1000\<rparr>
                                   else x) (users ?st),
                auditLogs := auditLogs ?st @ [e]\<rparr>,
             Next (HttpError 401 ''Account is deactivated''))"
    "al_action e = ''READ''" "al_userId e = u_id inactiveAlice"
    by blast
  then have "googleAuth sampleEnv ?st 1000 publicPost ''valid-google-token'' =
      (emptyStore\<lparr>users := [inactiveAlice\<lparr>u_googleId := Some ''g-1'', u_avatar := Some ''http://a/b.png'',
                                  u_isEmailVerified := True, u_lastLogin := Some 1000\<rparr>],
                 auditLogs := [e]\<rparr>,
       Next (HttpError 401 ''Account is deactivated'')) \<and>
      al_action e = ''READ'' \<and> al_userId e = u_id inactiveAlice"
    by (simp add: bf emptyStore_def)
  then show ?thesis using h1 h2 h3 h4 h5 h6 h7 h8 by blast
qed

lemma signin_locked:
  assumes "dbUp st" "find (\<lambda>x. u_email x = toLowerCase email) (users st) = Some u" "isLocked now u"
  shows "signin env st now req email password = (st, Next (HttpError 423 lockedMessage))"
  using assms by (simp add: signin_def User_findOne_def lockedMessage_def)

lemma signin_wrong_password:
  assumes "dbUp st" "find (\<lambda>x. u_email x = toLowerCase email) (users st) = Some u"
    "u_lockUntil u = None" "u_isActive u" "\<not> comparePassword (env_bcryptCompare env) u password"
  shows "fst (signin env st now req email password) =
           st\<lparr>users := map (\<lambda>x. if u_id x = u_id u then incLoginAttempts now u else x) (users st)\<rparr>"
  using assms by (simp add: signin_def User_findOne_def isLocked_def User_update_def incLoginAttempts_def)

lemma failed_step:
  assumes "dbUp st" "find (\<lambda>x. u_email x = toLowerCase email) (users st) = Some u"
    "u_lockUntil u = None" "u_isActive u" "\<not> comparePassword (env_bcryptCompare env) u password"
    "u_loginAttempts u = n" "st' = fst (signin env st t req email password)"
  shows "dbUp st' \<and>
         (\<exists>u'. find (\<lambda>x. u_email x = toLowerCase email) (users st') = Some u' \<and> u_isActive u' \<and>
               \<not> comparePassword (env_bcryptCompare env) u' password \<and>
               (if Suc n \<ge> lockThreshold
                then u_loginAttempts u' = 0 \<and> u_lockUntil u' = Some (t + lockTime)
                else u_loginAttempts u' = Suc n \<and> u_lockUntil u' = None))"
proof -
  let ?u' = "incLoginAttempts t u"
  have st': "st' = st\<lparr>users := map (\<lambda>x. if u_id x = u_id u then ?u' else x) (users st)\<rparr>"
    using assms(7) signin_wrong_password [OF assms(1-5)] by simp
  have id: "u_id ?u' = u_id u" and em: "u_email ?u' = toLowerCase email"
    using assms(2) by (auto simp: incLoginAttempts_def dest: find_Some_iff [THEN iffD1])
  have "find (\<lambda>x. u_email x = toLowerCase email) (users st') = Some ?u'"
    using find_after_update [OF assms(2), of ?u'] id em st' by simp
  moreover have "u_isActive ?u'" "\<not> comparePassword (env_bcryptCompare env) ?u' password"
    using assms(4,5) by (auto simp: incLoginAttempts_def comparePassword_def)
  moreover have "if Suc n \<ge> lockThreshold
                then u_loginAttempts ?u' = 0 \<and> u_lockUntil ?u' = Some (t + lockTime)
                else u_loginAttempts ?u' = Suc n \<and> u_lockUntil ?u' = None"
    using assms(3,6) by (simp add: incLoginAttempts_def)
  moreover have "dbUp st'" using st' assms(1) by simp
  ultimately show ?thesis by blast
qed

text \<open>
  C5. While lock-until of the account is in the future, signin answers 423 Locked and
  changes nothing, whatever the password. In particular, after five failed attempts on
  an unlocked active account with no failed attempts so far, a further attempt within
  the lock time of the fifth is answered 423, also with the correct password.
\<close>

theorem signin_locked_regardless_of_password:
  "(dbUp st \<and> find (\<lambda>x. u_email x = toLowerCase email) (users st) = Some u \<and>
      u_lockUntil u = Some until \<and> now < until \<longrightarrow>
        signin env st now req email password = (st, Next (HttpError 423 lockedMessage))) \<and>
   (dbUp st \<and> find (\<lambda>x. u_email x = toLowerCase email) (users st) = Some u \<and>
      u_isActive u \<and> u_loginAttempts u = 0 \<and> u_lockUntil u = None \<and>
      \<not> comparePassword (env_bcryptCompare env) u wrong \<and> t6 < t5 + lockTime \<longrightarrow>
        snd (signin env (failedSignins env st req email wrong [t1, t2, t3, t4, t5]) t6 req email password)
          = Next (HttpError 423 lockedMessage))"
proof (intro conjI impI)
  assume "dbUp st \<and> find (\<lambda>x. u_email x = toLowerCase email) (users st) = Some u \<and>
      u_lockUntil u = Some until \<and> now < until"
  then show "signin env st now req email password = (st, Next (HttpError 423 lockedMessage))"
    using signin_locked [of st email u now env req password] by (simp add: isLocked_def)
next
  let ?P = "\<lambda>x. u_email x = toLowerCase email"
  let ?step = "\<lambda>s t. fst (signin env s t req email wrong)"
  assume a: "dbUp st \<and> find ?P (users st) = Some u \<and>
      u_isActive u \<and> u_loginAttempts u = 0 \<and> u_lockUntil u = None \<and>
      \<not> comparePassword (env_bcryptCompare env) u wrong \<and> t6 < t5 + lockTime"
  define s1 where "s1 = ?step st t1"
  define s2 where "s2 = ?step s1 t2"
  define s3 where "s3 = ?step s2 t3"
  define s4 where "s4 = ?step s3 t4"
  define s5 where "s5 = ?step s4 t5"
  from a failed_step [of st email u env wrong 0 s1 t1 req] s1_def obtain u1 where
    1: "dbUp s1" "find ?P (users s1) = Some u1" "u_isActive u1"
       "\<not> comparePassword (env_bcryptCompare env) u1 wrong" "u_loginAttempts u1 = 1" "u_lockUntil u1 = None"
    by (auto simp: lockThreshold_def)
  from 1 failed_step [of s1 email u1 env wrong 1 s2 t2 req] s2_def obtain u2 where
    2: "dbUp s2" "find ?P (users s2) = Some u2" "u_isActive u2"
       "\<not> comparePassword (env_bcryptCompare env) u2 wrong" "u_loginAttempts u2 = 2" "u_lockUntil u2 = None"
    by (auto simp: lockThreshold_def)
  from 2 failed_step [of s2 email u2 env wrong 2 s3 t3 req] s3_def obtain u3 where
    3: "dbUp s3" "find ?P (users s3) = Some u3" "u_isActive u3"
       "\<not> comparePassword (env_bcryptCompare env) u3 wrong" "u_loginAttempts u3 = 3" "u_lockUntil u3 = None"
    by (auto simp: lockThreshold_def)
  from 3 failed_step [of s3 email u3 env wrong 3 s4 t4 req] s4_def obtain u4 where
    4: "dbUp s4" "find ?P (users s4) = Some u4" "u_isActive u4"
       "\<not> comparePassword (env_bcryptCompare env) u4 wrong" "u_loginAttempts u4 = 4" "u_lockUntil u4 = None"
    by (auto simp: lockThreshold_def)
  from 4 failed_step [of s4 email u4 env wrong 4 s5 t5 req] s5_def obtain u5 where
    5: "dbUp s5" "find ?P (users s5) = Some u5" "u_lockUntil u5 = Some (t5 + lockTime)"
    by (auto simp: lockThreshold_def)
  have "isLocked t6 u5" using 5(3) a by (simp add: isLocked_def)
  from signin_locked [OF 5(1,2) this]
  have "signin env s5 t6 req email password = (s5, Next (HttpError 423 lockedMessage))" .
  moreover have "failedSignins env st req email wrong [t1, t2, t3, t4, t5] = s5"
    by (simp add: failedSignins_def s1_def s2_def s3_def s4_def s5_def)
  ultimately show "snd (signin env (failedSignins env st req email wrong [t1, t2, t3, t4, t5]) t6 req email password)
          = Next (HttpError 423 lockedMessage)"
    by simp
qed

theorem signin_locked_regardless_of_password_witness:
  "comparePassword (env_bcryptCompare sampleEnv) alice ''Password123'' \<and>
   signin sampleEnv lockedAliceStore 5000 publicPost ''Alice@Example.com'' ''Password123''
     = (lockedAliceStore, Next (HttpError 423 lockedMessage)) \<and>
   snd (signin sampleEnv
          (failedSignins sampleEnv aliceStore publicPost ''alice@example.com'' ''WrongPassword''
             [1000, 2000, 3000, 4000, 5000])
          6000 publicPost ''alice@example.com'' ''Password123'')
     = Next (HttpError 423 lockedMessage)"
proof -
  have c: "comparePassword (env_bcryptCompare sampleEnv) alice ''Password123''"
    by (simp add: comparePassword_def sampleEnv_def alice_def)
  have lc: "toLowerCase ''Alice@Example.com'' = ''alice@example.com''" by code_simp
  have a: "dbUp lockedAliceStore \<and>
      find (\<lambda>x. u_email x = toLowerCase ''Alice@Example.com'') (users lockedAliceStore)
        = Some (alice\<lparr>u_lockUntil := Some 9000\<rparr>) \<and>
      u_lockUntil (alice\<lparr>u_lockUntil := Some 9000\<rparr>) = Some 9000 \<and> (5000::int) < 9000"
    by (simp add: lc lockedAliceStore_def emptyStore_def alice_def)
  have lc2: "toLowerCase ''alice@example.com'' = ''alice@example.com''" by code_simp
  have b: "dbUp aliceStore \<and>
      find (\<lambda>x. u_email x = toLowerCase ''alice@example.com'') (users aliceStore) = Some alice \<and>
      u_isActive alice \<and> u_loginAttempts alice = 0 \<and> u_lockUntil alice = None \<and>
      \<not> comparePassword (env_bcryptCompare sampleEnv) alice ''WrongPassword'' \<and>
      (6000::int) < 5000 + lockTime"
    by (simp add: lc2 aliceStore_def emptyStore_def alice_def comparePassword_def sampleEnv_def
          lockTime_def)
  note t = signin_locked_regardless_of_password [of lockedAliceStore "''Alice@Example.com''" "alice\<lparr>u_lockUntil := Some 9000\<rparr>"
      9000 5000 sampleEnv publicPost "''Password123''"]
  note t' = signin_locked_regardless_of_password [of aliceStore "''alice@example.com''" alice _ _ sampleEnv publicPost _
      "''WrongPassword''" 6000 5000 1000 2000 3000 4000]
  from t [THEN conjunct1, rule_format, OF a] t' [THEN conjunct2, rule_format, OF b, of "''Password123''"] c
  show ?thesis by simp
qed


section \<open>Properties of the audit controller\<close>

lemma leadDigit_pos: "0 < n \<Longrightarrow> 0 < leadDigit n"
proof (induction n rule: leadDigit.induct)
  case (1 n)
  show ?case
  proof (cases "n < 10")
    case True
    then show ?thesis using "1.prems" by simp
  next
    case False
    then have "0 < n div 10" by simp
    then show ?thesis using "1.IH" False by (subst leadDigit.simps) simp
  qed
qed

lemma parseInt_QNum_pos: "1 \<le> n \<Longrightarrow> \<exists>k. parseInt (QNum n) = Num k \<and> 1 \<le> k"
  using leadDigit_pos [of "nat n"] by (auto simp: parseInt_def)

lemma parseInt_QNum: "\<exists>k. parseInt (QNum n) = Num k"
  by (simp add: parseInt_def)

lemma parseInt_QNum_small: "1 \<le> n \<Longrightarrow> n \<le> 100 \<Longrightarrow> parseInt (QNum n) = Num n"
  by (simp add: parseInt_def)

lemma pageNum_numeric: "q_page q = Some (QNum n) \<Longrightarrow> atLeast 1 (pageNum q)"
  using parseInt_QNum [of n] by (auto simp: pageNum_def mathMax_def atLeast_def)

lemma limitNum_numeric: "q_limit q = Some (QNum n) \<Longrightarrow> inRange 1 100 (limitNum q)"
  using parseInt_QNum [of n] by (auto simp: limitNum_def mathMax_def mathMin_def inRange_def)

text \<open>
  The validator matters for text: on its own the controller's clamp reads a number off
  the front of a string, and yields NaN when there is none.
\<close>

lemma limitNum_unparsable:
  "limitNum \<lparr>q_page = None, q_limit = Some (QStr ''abc''), q_filters = noFilters\<rparr> = NaN \<and>
   limitNum \<lparr>q_page = None, q_limit = Some (QStr ''250 items''), q_filters = noFilters\<rparr> = Num 100"
  by code_simp

lemma validated_numeric:
  assumes "validateAuditQuery toInteger rest raw = Inr q"
  shows "\<exists>p l. q_page q = Some (QNum p) \<and> q_limit q = Some (QNum l)"
  using assms
  by (auto simp: validateAuditQuery_def validatePage_def validateLimit_def
           split: option.splits if_splits)

text \<open>
  C10. For a query string that passes the validator of the three list endpoints, the
  page number the controller computes is at least 1 and the number of items per page is
  between 1 and 100; the same holds for every numeric page and limit the controller is
  given. These two values are the page and limit of the options each of the three
  controllers passes to the query.
\<close>

theorem audit_paging_clamped:
  "(validateAuditQuery toInteger rest raw = Inr q \<longrightarrow>
      atLeast 1 (pageNum q) \<and> inRange 1 100 (limitNum q)) \<and>
   (q_page q = Some (QNum n) \<longrightarrow> atLeast 1 (pageNum q)) \<and>
   (q_limit q = Some (QNum n) \<longrightarrow> inRange 1 100 (limitNum q)) \<and>
   (q_page q = None \<longrightarrow> pageNum q = Num 1) \<and>
   (q_limit q = None \<longrightarrow> limitNum q = Num 20) \<and>
   o_page (getAuditLogs_options caller q) = pageNum q \<and>
   o_limit (getAuditLogs_options caller q) = limitNum q \<and>
   (getEntityAuditLogs_options caller entity entityId q = Inr opts \<longrightarrow>
      o_page opts = pageNum q \<and> o_limit opts = limitNum q) \<and>
   (getUserActivity_options caller userId q = Inr opts' \<longrightarrow>
      o_page opts' = pageNum q \<and> o_limit opts' = limitNum q)"
proof (intro conjI impI)
  assume v: "validateAuditQuery toInteger rest raw = Inr q"
  from validated_numeric [OF v] obtain p l where "q_page q = Some (QNum p)" "q_limit q = Some (QNum l)"
    by blast
  then show "atLeast 1 (pageNum q)" "inRange 1 100 (limitNum q)"
    using pageNum_numeric limitNum_numeric by blast+
next
  assume "q_page q = Some (QNum n)"
  then show "atLeast 1 (pageNum q)" by (rule pageNum_numeric)
next
  assume "q_limit q = Some (QNum n)"
  then show "inRange 1 100 (limitNum q)" by (rule limitNum_numeric)
next
  assume "q_page q = None"
  then show "pageNum q = Num 1" by (simp add: pageNum_def parseInt_def mathMax_def)
next
  assume "q_limit q = None"
  then show "limitNum q = Num 20" by (simp add: limitNum_def parseInt_def mathMax_def mathMin_def)
next
  show "o_page (getAuditLogs_options caller q) = pageNum q"
    "o_limit (getAuditLogs_options caller q) = limitNum q"
    by (simp_all add: getAuditLogs_options_def Let_def)
next
  assume "getEntityAuditLogs_options caller entity entityId q = Inr opts"
  then show "o_page opts = pageNum q" "o_limit opts = limitNum q"
    by (auto simp: getEntityAuditLogs_options_def Let_def split: if_splits)
next
  assume "getUserActivity_options caller userId q = Inr opts'"
  then show "o_page opts' = pageNum q" "o_limit opts' = limitNum q"
    by (auto simp: getUserActivity_options_def Let_def split: if_splits)
qed

theorem audit_paging_clamped_witness:
  "validateAuditQuery sampleToInteger (\<lambda>r. Some noFilters) sampleRaw
     = Inr \<lparr>q_page = Some (QNum 7), q_limit = Some (QNum 50), q_filters = noFilters\<rparr> \<and>
   pageNum \<lparr>q_page = Some (QNum 7), q_limit = Some (QNum 50), q_filters = noFilters\<rparr> = Num 7 \<and>
   limitNum \<lparr>q_page = Some (QNum 7), q_limit = Some (QNum 50), q_filters = noFilters\<rparr> = Num 50 \<and>
   atLeast 1 (pageNum \<lparr>q_page = Some (QNum 7), q_limit = Some (QNum 50), q_filters = noFilters\<rparr>) \<and>
   inRange 1 100 (limitNum \<lparr>q_page = Some (QNum 7), q_limit = Some (QNum 50), q_filters = noFilters\<rparr>) \<and>
   validateAuditQuery sampleToInteger (\<lambda>r. Some noFilters) (sampleRaw\<lparr>r_limit := Some ''500''\<rparr>)
     = Inl (HttpError 400 ''Validation failed'')"
proof -
  let ?q = "\<lparr>q_page = Some (QNum 7), q_limit = Some (QNum 50), q_filters = noFilters\<rparr>"
  have v: "validateAuditQuery sampleToInteger (\<lambda>r. Some noFilters) sampleRaw = Inr ?q"
    by code_simp
  have p: "pageNum ?q = Num 7" by code_simp
  have l: "limitNum ?q = Num 50" by code_simp
  have r: "validateAuditQuery sampleToInteger (\<lambda>r. Some noFilters) (sampleRaw\<lparr>r_limit := Some ''500''\<rparr>)
     = Inl (HttpError 400 ''Validation failed'')"
    by code_simp
  from audit_paging_clamped [of sampleToInteger "\<lambda>r. Some noFilters" sampleRaw ?q, THEN conjunct1, rule_format, OF v]
    v p l r
  show ?thesis by simp
qed

lemma limitTo_subset: "set (limitTo n xs) \<subseteq> set xs"
  by (auto simp: limitTo_def dest: in_set_takeD)

lemma paginate_subset: "paginate p l xs = Inr ys \<Longrightarrow> set ys \<subseteq> set xs"
  using limitTo_subset
  by (fastforce simp: paginate_def split: jsnum.splits if_splits dest: in_set_dropD)

lemma find_by_caller:
  "AuditLog_find st q = Inr xs \<Longrightarrow> fq_userId q = Some (IdObj uid) \<Longrightarrow> e \<in> set xs \<Longrightarrow>
     al_userId e = uid"
  by (auto simp: AuditLog_find_def castObjectId_def matches_def eqOpt_def split: if_splits)

lemma populate_actor:
  "pl_log (populate st e) = e" "pl_user (populate st e) = Some a \<Longrightarrow> a_id a = al_userId e"
  by (auto simp: populate_def dest: find_Some_iff [THEN iffD1])

lemma getEntityLogs_by_caller:
  assumes "o_userId opts = Some (IdObj uid)" "p \<in> set (snd (getEntityLogs st entity entityId opts))"
  shows "al_userId (pl_log p) = uid \<and> (\<forall>a. pl_user p = Some a \<longrightarrow> a_id a = uid)"
proof -
  from assms(2) obtain found page e where
    f: "AuditLog_find st \<lparr>fq_entity = Some entity, fq_entityId = Some entityId,
                    fq_action = upperIfGiven (o_action opts),
                    fq_userId = Some (IdObj uid),
                    fq_gte = o_startDate opts, fq_lte = o_endDate opts\<rparr> = Inr found"
    and pg: "paginate (o_page opts) (o_limit opts) (sortNewestFirst found) = Inr page"
    and e: "e \<in> set page" "p = populate st e"
    using assms(1)
    by (auto simp: getEntityLogs_def AuditLog_getEntityLogs_def Let_def idGiven_def
             split: sum.splits)
  from paginate_subset [OF pg] e(1) have "e \<in> set found"
    by (auto simp: sortNewestFirst_def)
  with find_by_caller [OF f] have "al_userId e = uid" by simp
  then show ?thesis using e(2) populate_actor [of st e] by auto
qed

text \<open>
  C4. For a caller whose role is not admin, every entry of the list that
  \<^verbatim>\<open>getAuditLogs\<close> returns has the caller's id as its actor, whatever the filters of the
  query, a userId filter included.
\<close>

theorem getAuditLogs_own_entries_only:
  assumes "u_role caller \<noteq> ''admin''" and "snd (getAuditLogs st caller q) = AuditLogs logs pg"
  shows "\<forall>p \<in> set logs. al_userId (pl_log p) = u_id caller \<and>
           (\<forall>a. pl_user p = Some a \<longrightarrow> a_id a = u_id caller)"
proof
  fix p assume p: "p \<in> set logs"
  have o: "o_userId (getAuditLogs_options caller q) = Some (IdObj (u_id caller))"
    using assms(1) by (simp add: getAuditLogs_options_def getAuditLogs_query_def Let_def)
  have "logs = snd (getEntityLogs st [] [] (getAuditLogs_options caller q))"
    using assms(2) by (auto simp: getAuditLogs_def Let_def split: prod.splits sum.splits)
  with p getEntityLogs_by_caller [OF o] 
  show "al_userId (pl_log p) = u_id caller \<and> (\<forall>a. pl_user p = Some a \<longrightarrow> a_id a = u_id caller)"
    by blast
qed

theorem getAuditLogs_own_entries_only_witness:
  "u_role alice \<noteq> ''admin'' \<and>
   snd (getAuditLogs mixedStore alice bobsLogsQuery)
     = AuditLogs [populate mixedStore (blankEntry aliceId 3), populate mixedStore (blankEntry aliceId 1)]
         \<lparr>currentPage = Num 1, totalPages = Num 1, totalItems = 2, itemsPerPage = Num 20,
          hasNextPage = False, hasPrevPage = False\<rparr> \<and>
   al_userId (pl_log (populate mixedStore (blankEntry aliceId 3))) = u_id alice \<and>
   al_userId (pl_log (populate mixedStore (blankEntry aliceId 1))) = u_id alice"
proof -
  have h1: "u_role alice \<noteq> ''admin''" by (simp add: alice_def)
  have h2: "snd (getAuditLogs mixedStore alice bobsLogsQuery)
     = AuditLogs [populate mixedStore (blankEntry aliceId 3), populate mixedStore (blankEntry aliceId 1)]
         \<lparr>currentPage = Num 1, totalPages = Num 1, totalItems = 2, itemsPerPage = Num 20,
          hasNextPage = False, hasPrevPage = False\<rparr>"
    by code_simp
  from getAuditLogs_own_entries_only [OF h1 h2] h1 h2 show ?thesis by simp
qed

lemma length_limitTo: "0 < n \<Longrightarrow> length (limitTo n xs) \<le> nat n"
  by (simp add: limitTo_def)

lemma exportAuditLogs_find_length:
  "exportAuditLogs_find st x = Inr logs \<Longrightarrow> length logs \<le> 10000"
  using length_limitTo [of "int exportLimit"]
  by (auto simp: exportAuditLogs_find_def Let_def exportLimit_def split: sum.splits)

text \<open>
  C8. The export reads at most 10000 documents: the JSON file holds at most 10000 logs
  and reports their number, the CSV file is built from at most 10000 logs, one row each
  under the header row.
\<close>

theorem export_capped:
  "(case exportAuditLogs_find st x of
      Inl e \<Rightarrow> exportAuditLogs row st x = NextA e
    | Inr logs \<Rightarrow>
        length logs \<le> 10000 \<and> length (csvRows row logs) \<le> 10001 \<and>
        exportAuditLogs row st x =
          (if x_format x = Some ''csv'' then CsvFile (convertToCSV row logs)
           else JsonFile logs (length logs)))"
proof (cases "exportAuditLogs_find st x")
  case (Inl e)
  then show ?thesis by (simp add: exportAuditLogs_def)
next
  case (Inr logs)
  from exportAuditLogs_find_length [OF Inr] have "length logs \<le> 10000" .
  then show ?thesis using Inr by (simp add: exportAuditLogs_def csvRows_def)
qed

lemma sort_key_replicate: "sort_key f (replicate n x) = replicate n x"
proof (induction n)
  case 0
  then show ?case by simp
next
  case (Suc n)
  then show ?case by (cases n) simp_all
qed

lemma bigStore_export:
  "exportAuditLogs_find bigStore jsonExport
     = Inr (replicate 10000 (populate bigStore (blankEntry aliceId 1)))"
proof -
  have m: "matches \<lparr>fq_entity = None, fq_entityId = None, fq_action = None, fq_userId = None,
              fq_gte = None, fq_lte = None\<rparr> None e" for e
    by (simp add: matches_def eqOpt_def)
  show ?thesis
    by (simp add: exportAuditLogs_find_def Let_def jsonExport_def noFilters_def ifGiven_def
          upperIfGiven_def unset_def AuditLog_find_def bigStore_def m sortNewestFirst_def
          sort_key_replicate limitTo_def exportLimit_def)
qed

theorem export_capped_witness:
  "length (auditLogs bigStore) = 10001 \<and>
   exportAuditLogs_find bigStore jsonExport
     = Inr (replicate 10000 (populate bigStore (blankEntry aliceId 1))) \<and>
   exportAuditLogs sampleRow bigStore jsonExport
     = JsonFile (replicate 10000 (populate bigStore (blankEntry aliceId 1))) 10000 \<and>
   length (csvRows sampleRow (replicate 10000 (populate bigStore (blankEntry aliceId 1)))) \<le> 10001"
  using export_capped [where st = bigStore and x = jsonExport and row = sampleRow] bigStore_export
  by (simp add: bigStore_def jsonExport_def)

end
